theory Spec2Isabelle
  imports Main "HOL-Library.Sublist"
begin

section \<open>Python values, exceptions and decoded JSON\<close>

text \<open>
  The backend is Python. Exceptions are values: a computation that may raise has the
  type \<open>py_error + 'a\<close>, with \<open>Inl\<close> the raised exception. An exception carries its
  class and the text that \<open>str(e)\<close> gives. The classes are the ones the handlers of
  \<^verbatim>\<open>tools.py\<close> name, the ones the subscripting and attribute operations of Python raise
  on a value of the wrong shape, the recursion error of the graph runtime, and
  \<open>OtherException\<close> for every other subclass of \<open>Exception\<close> (a socket timeout while
  the body is read, a dropped connection, an outage of the model). An exception of a
  subclass of a listed class stands as that class (a JSON decoding error is a
  \<open>ValueError\<close>).
\<close>

datatype exn_kind =
    URLError | HTTPError | KeyError | IndexError | ValueError
  | TypeError | AttributeError | OverflowError | GraphRecursionError | OtherException

datatype py_error = PyErr exn_kind string

text \<open>
  What \<open>json.loads\<close> returns. Numbers are kept abstract (\<open>'n\<close> stands for Python's
  numbers, \<open>int\<close> and \<open>float\<close>); a dictionary is the list of its items.
\<close>

datatype 'n json =
    JNull
  | JBool bool
  | JNum 'n
  | JStr string
  | JArr "'n json list"
  | JObj "(string \<times> 'n json) list"

type_synonym 'n pydict = "(string \<times> 'n json) list"

definition ebind :: "py_error + 'a \<Rightarrow> ('a \<Rightarrow> py_error + 'b) \<Rightarrow> py_error + 'b" where
  "ebind m f = (case m of Inl e \<Rightarrow> Inl e | Inr x \<Rightarrow> f x)"

text \<open>\<open>try: m except (k1, ..., kn): return d\<close>\<close>

definition try_except :: "exn_kind list \<Rightarrow> 'a \<Rightarrow> py_error + 'a \<Rightarrow> py_error + 'a" where
  "try_except ks d m =
     (case m of
        Inl (PyErr k msg) \<Rightarrow> if k \<in> set ks then Inr d else Inl (PyErr k msg)
      | Inr x \<Rightarrow> Inr x)"

text \<open>\<open>try: m except Exception: return d\<close>: every modelled class derives from \<open>Exception\<close>.\<close>

definition try_except_all :: "'a \<Rightarrow> py_error + 'a \<Rightarrow> py_error + 'a" where
  "try_except_all d m = (case m of Inl e \<Rightarrow> Inr d | Inr x \<Rightarrow> Inr x)"

text \<open>Truth value of a decoded JSON value (\<open>if data:\<close>).\<close>

fun truthy :: "('n::zero_neq_one) json \<Rightarrow> bool" where
  "truthy JNull = False"
| "truthy (JBool b) = b"
| "truthy (JNum x) = (x \<noteq> 0)"
| "truthy (JStr s) = (s \<noteq> [])"
| "truthy (JArr xs) = (xs \<noteq> [])"
| "truthy (JObj kvs) = (kvs \<noteq> [])"

text \<open>
  \<open>float(v)\<close>. What \<open>float\<close> makes of a string and of a decoded number is a
  parameter: \<open>p (Inl s)\<close> for the string \<open>s\<close> (\<open>None\<close>: ValueError) and \<open>p (Inr x)\<close>
  for the number \<open>x\<close> (\<open>None\<close>: OverflowError, which \<open>float\<close> raises on an integer
  beyond the range of \<open>float\<close>).
\<close>

fun py_float :: "(string + 'n \<Rightarrow> 'n option) \<Rightarrow> ('n::zero_neq_one) json \<Rightarrow> py_error + 'n" where
  "py_float p (JNum x) =
     (case p (Inr x) of None \<Rightarrow> Inl (PyErr OverflowError ''int too large to convert to float'')
      | Some y \<Rightarrow> Inr y)"
| "py_float p (JStr s) =
     (case p (Inl s) of None \<Rightarrow> Inl (PyErr ValueError ''could not convert string to float'')
      | Some x \<Rightarrow> Inr x)"
| "py_float p (JBool b) = Inr (if b then 1 else 0)"
| "py_float p v = Inl (PyErr TypeError ''float() argument must be a string or a real number'')"

text \<open>First position at which \<open>k\<close> occurs in \<open>s\<close> (\<open>str.find\<close>).\<close>

fun str_find :: "string \<Rightarrow> string \<Rightarrow> nat option" where
  "str_find k [] = (if k = [] then Some 0 else None)"
| "str_find k (c # cs) =
     (if take (length k) (c # cs) = k then Some 0 else map_option Suc (str_find k cs))"

text \<open>First position of an element in a list (\<open>list.index\<close>).\<close>

fun list_index :: "'a \<Rightarrow> 'a list \<Rightarrow> nat option" where
  "list_index x [] = None"
| "list_index x (y # ys) = (if y = x then Some 0 else map_option Suc (list_index x ys))"

text \<open>\<open>k in v\<close> for a string \<open>k\<close>.\<close>

fun py_in :: "string \<Rightarrow> 'n json \<Rightarrow> py_error + bool" where
  "py_in k (JObj kvs) = Inr (map_of kvs k \<noteq> None)"
| "py_in k (JArr xs) = Inr (JStr k \<in> set xs)"
| "py_in k (JStr s) = Inr (str_find k s \<noteq> None)"
| "py_in k v = Inl (PyErr TypeError ''argument is not iterable'')"

text \<open>\<open>v.index(k)\<close> for a string \<open>k\<close>.\<close>

fun py_index :: "string \<Rightarrow> 'n json \<Rightarrow> py_error + nat" where
  "py_index k (JArr xs) =
     (case list_index (JStr k) xs of None \<Rightarrow> Inl (PyErr ValueError ''not in list'')
      | Some i \<Rightarrow> Inr i)"
| "py_index k (JStr s) =
     (case str_find k s of None \<Rightarrow> Inl (PyErr ValueError ''substring not found'')
      | Some i \<Rightarrow> Inr i)"
| "py_index k v = Inl (PyErr AttributeError ''object has no attribute index'')"

text \<open>\<open>v[k]\<close> for a string \<open>k\<close>.\<close>

fun py_getitem :: "'n json \<Rightarrow> string \<Rightarrow> py_error + 'n json" where
  "py_getitem (JObj kvs) k =
     (case map_of kvs k of None \<Rightarrow> Inl (PyErr KeyError k) | Some v \<Rightarrow> Inr v)"
| "py_getitem v k = Inl (PyErr TypeError ''indices must be integers or object is not subscriptable'')"

text \<open>\<open>v[i]\<close> for an index \<open>i \<ge> 0\<close>. A decoded dictionary has string keys only.\<close>

fun py_getidx :: "'n json \<Rightarrow> nat \<Rightarrow> py_error + 'n json" where
  "py_getidx (JArr xs) i =
     (if i < length xs then Inr (xs ! i) else Inl (PyErr IndexError ''list index out of range''))"
| "py_getidx (JStr s) i =
     (if i < length s then Inr (JStr [s ! i]) else Inl (PyErr IndexError ''string index out of range''))"
| "py_getidx (JObj kvs) i = Inl (PyErr KeyError ''integer key'')"
| "py_getidx v i = Inl (PyErr TypeError ''object is not subscriptable'')"

text \<open>\<open>v.get(k, d)\<close>.\<close>

fun py_get :: "'n json \<Rightarrow> string \<Rightarrow> 'n json \<Rightarrow> py_error + 'n json" where
  "py_get (JObj kvs) k d = Inr (case map_of kvs k of None \<Rightarrow> d | Some v \<Rightarrow> v)"
| "py_get v k d = Inl (PyErr AttributeError ''object has no attribute get'')"

text \<open>\<open>sep.join(xs)\<close> on strings.\<close>

fun str_join :: "string \<Rightarrow> string list \<Rightarrow> string" where
  "str_join sep [] = []"
| "str_join sep [x] = x"
| "str_join sep (x # y # ys) = x @ sep @ str_join sep (y # ys)"

section \<open>The environment of the tools\<close>

text \<open>
  An HTTP request is the URL, the query parameters and the headers given to
  \<^verbatim>\<open>_http_get\<close>. The network, the clock and the library functions on dates are the
  environment: \<open>http\<close> answers a request with the decoded body or raises (one
  answer for a request: no tool sends the same request twice in a run);
  \<open>utc_today\<close> is \<open>datetime.utcnow().date()\<close> and \<open>berlin_now\<close> the date of
  \<open>datetime.now(tz)\<close> for Europe/Berlin, both as proleptic Gregorian ordinals
  (\<open>date.toordinal()\<close>), so that comparing dates and adding a \<open>timedelta\<close> of days are
  integer operations; \<open>strptime\<close> is \<open>datetime.strptime(s, "%Y-%m-%d").date()\<close>
  (\<open>None\<close>: ValueError), \<open>strftime\<close> is \<open>dt.strftime("%Y-%m-%d")\<close>, and
  \<open>dateparser_parse\<close> is \<open>dateparser.parse\<close> with the settings of the source;
  \<open>parse_float\<close> is what \<open>float\<close> makes of a string or of a decoded number.
\<close>

record 'n request =
  url :: string
  params :: "'n pydict"
  headers :: "(string \<times> string) list"

record 'n env =
  http :: "'n request \<Rightarrow> py_error + 'n json"
  utc_today :: int
  berlin_now :: int
  strptime :: "string \<Rightarrow> int option"
  strftime :: "int \<Rightarrow> string"
  dateparser_parse :: "string \<Rightarrow> py_error + int option"
  parse_float :: "string + 'n \<Rightarrow> 'n option"

text \<open>\<open>date.max.toordinal()\<close>: 9999-12-31.\<close>

definition date_max :: int where
  "date_max = 3652059"

text \<open>
  A tool run yields its result (or the exception it raises) and the list of the
  requests it has sent, in order.
\<close>

type_synonym ('n, 'a) run = "(py_error + 'a) \<times> 'n request list"

definition http_get :: "'n env \<Rightarrow> 'n request \<Rightarrow> ('n, 'n json) run" where
  "http_get env req = (http env req, [req])"

section \<open>tools.py\<close>

definition geo_request :: "string \<Rightarrow> string \<Rightarrow> 'n request" where
  "geo_request city country =
     \<lparr> url = ''https://nominatim.openstreetmap.org/search'',
       params = [(''city'', JStr city), (''country'', JStr country), (''format'', JStr ''json'')],
       headers = [(''User-Agent'', ''GenAiProject'')] \<rparr>"

definition get_latitude_longitude ::
  "('n::zero_neq_one) env \<Rightarrow> string \<Rightarrow> string \<Rightarrow> ('n, ('n \<times> 'n) option) run" where
  "get_latitude_longitude env city country =
     (let (resp, log) = http_get env (geo_request city country) in
      (try_except [URLError, HTTPError, KeyError, IndexError, ValueError] None
         (ebind resp (\<lambda>data.
            if truthy data then
              ebind (py_getidx data 0) (\<lambda>first.
              ebind (py_getitem first ''lat'') (\<lambda>lat.
              ebind (py_float (parse_float env) lat) (\<lambda>la.
              ebind (py_getidx data 0) (\<lambda>first'.
              ebind (py_getitem first' ''lon'') (\<lambda>lon.
              ebind (py_float (parse_float env) lon) (\<lambda>lo.
              Inr (Some (la, lo))))))))
            else Inr None)),
       log))"

definition weather_request :: "'n \<Rightarrow> 'n \<Rightarrow> 'n request" where
  "weather_request latitude longitude =
     \<lparr> url = ''https://api.open-meteo.com/v1/forecast'',
       params = [(''latitude'', JNum latitude), (''longitude'', JNum longitude),
                 (''current_weather'', JBool True),
                 (''hourly'', JArr [JStr ''precipitation'', JStr ''cloudcover'', JStr ''wind_speed_10m'']),
                 (''timezone'', JStr ''auto'')],
       headers = [(''User-Agent'', ''GenAiProject'')] \<rparr>"

definition get_weather :: "'n env \<Rightarrow> 'n \<Rightarrow> 'n \<Rightarrow> ('n, 'n pydict option) run" where
  "get_weather env latitude longitude =
     (let (resp, log) = http_get env (weather_request latitude longitude) in
      (try_except [URLError, HTTPError, KeyError, ValueError, IndexError] None
         (ebind resp (\<lambda>data.
          ebind (py_in ''current_weather'' data) (\<lambda>present.
            if present then
              ebind (py_getitem data ''current_weather'') (\<lambda>current.
              ebind (py_get current ''temperature'' JNull) (\<lambda>temperature.
              ebind (py_get current ''windspeed'' JNull) (\<lambda>windspeed.
              ebind (py_get current ''winddirection'' JNull) (\<lambda>winddirection.
              ebind (py_get current ''weathercode'' JNull) (\<lambda>weathercode.
              ebind (py_get current ''time'' JNull) (\<lambda>time.
              ebind (py_get current ''precipitation'' JNull) (\<lambda>rain.
              ebind (py_get current ''cloudcover'' JNull) (\<lambda>cloudcover.
              Inr (Some [(''temperature'', temperature), (''windspeed'', windspeed),
                         (''winddirection'', winddirection), (''weathercode'', weathercode),
                         (''time'', time), (''rain'', rain), (''cloudcover'', cloudcover)])))))))))
            else Inr None))),
       log))"

definition forecast_request :: "'n \<Rightarrow> 'n \<Rightarrow> 'n request" where
  "forecast_request latitude longitude =
     \<lparr> url = ''https://api.open-meteo.com/v1/ecmwf'',
       params = [(''latitude'', JNum latitude), (''longitude'', JNum longitude),
                 (''daily'', JStr ''temperature_2m_max,temperature_2m_min,precipitation_sum,cloudcover_mean''),
                 (''timezone'', JStr ''auto'')],
       headers = [(''User-Agent'', ''GenAiProject'')] \<rparr>"

text \<open>The part of \<^verbatim>\<open>get_weather_forecast\<close> inside its second \<open>try\<close>, after the fetch.\<close>

definition forecast_entry :: "string \<Rightarrow> 'n json \<Rightarrow> py_error + 'n pydict option" where
  "forecast_entry forecast_date data =
     ebind (py_in ''daily'' data) (\<lambda>present.
       if present then
         ebind (py_getitem data ''daily'') (\<lambda>daily_data.
         ebind (py_get daily_data ''time'' (JArr [])) (\<lambda>times.
         ebind (py_in forecast_date times) (\<lambda>found.
           if found then
             ebind (py_index forecast_date times) (\<lambda>idx.
             ebind (py_getitem daily_data ''temperature_2m_max'') (\<lambda>tmax.
             ebind (py_getidx tmax idx) (\<lambda>temperature_max.
             ebind (py_getitem daily_data ''temperature_2m_min'') (\<lambda>tmin.
             ebind (py_getidx tmin idx) (\<lambda>temperature_min.
             ebind (py_getitem daily_data ''precipitation_sum'') (\<lambda>psum.
             ebind (py_getidx psum idx) (\<lambda>precipitation_sum.
             ebind (py_get daily_data ''cloudcover_mean'' (JArr [JNull])) (\<lambda>cc.
             ebind (py_getidx cc idx) (\<lambda>cloudcover_mean.
             Inr (Some [(''date'', JStr forecast_date),
                        (''temperature_max'', temperature_max),
                        (''temperature_min'', temperature_min),
                        (''precipitation_sum'', precipitation_sum),
                        (''cloudcover_mean'', cloudcover_mean)]))))))))))
           else Inr None)))
       else Inr None)"

definition get_weather_forecast ::
  "'n env \<Rightarrow> 'n \<Rightarrow> 'n \<Rightarrow> string \<Rightarrow> ('n, 'n pydict option) run" where
  "get_weather_forecast env latitude longitude forecast_date =
     (let start_date = utc_today env in
      if start_date + 10 > date_max then (Inl (PyErr OverflowError ''date value out of range''), [])
      else
        let end_date = start_date + 10 in
        case strptime env forecast_date of
          None \<Rightarrow> (Inr None, [])
        | Some requested_date \<Rightarrow>
            if requested_date < start_date \<or> requested_date > end_date then (Inr None, [])
            else
              let (resp, log) = http_get env (forecast_request latitude longitude) in
              (try_except [URLError, HTTPError, KeyError, ValueError, IndexError] None
                 (ebind resp (forecast_entry forecast_date)),
               log))"

definition get_weather_from_city_name ::
  "('n::zero_neq_one) env \<Rightarrow> string \<Rightarrow> string \<Rightarrow> ('n, 'n pydict option) run" where
  "get_weather_from_city_name env city country =
     (case get_latitude_longitude env city country of
        (Inl e, log) \<Rightarrow> (Inl e, log)
      | (Inr None, log) \<Rightarrow> (Inr None, log)
      | (Inr (Some (latitude, longitude)), log) \<Rightarrow>
          (let (r, log') = get_weather env latitude longitude in (r, log @ log')))"

definition get_weather_forecast_from_city_name ::
  "('n::zero_neq_one) env \<Rightarrow> string \<Rightarrow> string \<Rightarrow> string \<Rightarrow> ('n, 'n pydict option) run" where
  "get_weather_forecast_from_city_name env city country forecast_date =
     (case get_latitude_longitude env city country of
        (Inl e, log) \<Rightarrow> (Inl e, log)
      | (Inr None, log) \<Rightarrow> (Inr None, log)
      | (Inr (Some (latitude, longitude)), log) \<Rightarrow>
          (let (r, log') = get_weather_forecast env latitude longitude forecast_date
           in (r, log @ log')))"

definition get_weather_forecast_from_city_name_date_phrase ::
  "('n::zero_neq_one) env \<Rightarrow> string \<Rightarrow> string \<Rightarrow> string \<Rightarrow> ('n, 'n pydict option) run" where
  "get_weather_forecast_from_city_name_date_phrase env city country date_phrase =
     (let now = berlin_now env in
      case dateparser_parse env date_phrase of
        Inl e \<Rightarrow> (Inr None, [])
      | Inr parsed \<Rightarrow>
          (let dt = (case parsed of None \<Rightarrow> now | Some d \<Rightarrow> d);
               target_date_str = strftime env dt;
               (r, log) = get_weather_forecast_from_city_name env city country target_date_str
           in (try_except_all None r, log)))"

section \<open>retriever.py and the retrieval tool\<close>

text \<open>
  A retrieved passage is a document with its text. The vector store (Qdrant, with its
  embedding model) is a parameter: \<open>vs q k\<close> is what the store's retriever, built with
  \<open>search_kwargs = {"k": k}\<close>, returns for the query \<open>q\<close>, or the exception it raises.
\<close>

record document =
  page_content :: string

type_synonym vectorstore = "string \<Rightarrow> nat \<Rightarrow> py_error + document list"

record retrieval_service =
  retriever_k :: nat

definition QdrantRetrievalService :: "nat option \<Rightarrow> retrieval_service" where
  \<comment> \<open>\<open>__init__(..., top_k: int = 5)\<close>: \<open>None\<close> is the omitted argument\<close>
  "QdrantRetrievalService top_k = \<lparr> retriever_k = (case top_k of None \<Rightarrow> 5 | Some k \<Rightarrow> k) \<rparr>"

definition query :: "vectorstore \<Rightarrow> retrieval_service \<Rightarrow> string \<Rightarrow> py_error + document list" where
  "query vs self input_text = vs input_text (retriever_k self)"

definition get_retriever :: retrieval_service where
  "get_retriever = QdrantRetrievalService None"

definition retriever_tool :: "vectorstore \<Rightarrow> string \<Rightarrow> py_error + string" where
  "retriever_tool vs q =
     ebind (query vs get_retriever q) (\<lambda>docs.
       Inr (str_join [CHR 0x0A, CHR 0x0A] (map page_content docs)))"

section \<open>config.py: the system prompt\<close>

definition quoted :: "string \<Rightarrow> string" where
  "quoted s = CHR 0x22 # s @ [CHR 0x22]"

definition SYSTEM_PROMPT :: string where
  "SYSTEM_PROMPT = concat (map (\<lambda>line. line @ [CHR 0x0A])
     [ [],
       ''You are a helpful assistant. Your purpose is to answer questions regarding the weather and internal documents.'',
       [],
       ''You have the following tools:'',
       ''- '' @ quoted ''get_weather_from_city_name'' @ '': Get the current weather for a given city and country.'',
       ''- '' @ quoted ''get_weather_forecast_from_city_name'' @ '': Get the weather forecast for a given city and country.'',
       ''- '' @ quoted ''get_weather_forecast_from_city_name_date_phrase''
         @ '': Get the weather forecast for a given city and country based on a natural language date phrase.'',
       ''- '' @ quoted ''Retriever'' @ '': Access the internal documents.'',
       [],
       ''Always search the internal documents first before using your internal knowledge.'',
       ''When the user asks for weather, you MUST use the '' @ quoted ''get_weather_from_city_name''
         @ '' tool. Do not rely on your own knowledge.'',
       ''When the user asks for weather forecast, you MUST use the '' @ quoted ''get_weather_forecast_from_city_name''
         @ '' tool. Do not rely on your own knowledge.'',
       ''If the user is using a relative phrase like '' @ quoted ''tomorrow'' @ '', '' @ quoted ''next Friday''
         @ '', '' @ quoted ''next week'' @ '', etc., use the ''
         @ quoted ''get_weather_forecast_from_city_name_date_phrase'' @ '' tool.'',
       ''When the user asks for other questions, you should use the '' @ quoted ''Retriever'' @ '' tool.'' ])"

section \<open>Messages\<close>

text \<open>
  The content of a message is a plain string or a list of parts, each a string or a
  dictionary. An assistant message carries the tool calls the model requests; a tool
  message carries the id of the call it answers. Every message may carry an id of its
  own. A message built without an id is given one by \<open>uuid4\<close> when it enters the state
  of the graph; \<open>uuid4\<close> is taken to return an id that no other message carries, so
  the model leaves the id of such a message \<open>None\<close> and lets \<open>None\<close> match no id.
  The messages of this program are system, human, assistant and tool messages: no node
  of the graph and no caller under \<^verbatim>\<open>api.py\<close> builds a removal marker, so the type has
  none.
\<close>

record 'n tool_call =
  tool_name :: string
  tool_args :: "'n pydict"
  call_id :: string

datatype 'n content = Text string | Parts "'n json list"

datatype 'n message =
    SystemMessage "'n content" "string option"
  | HumanMessage "'n content" "string option"
  | AIMessage "'n content" "'n tool_call list" "string option"
  | ToolMessage "'n content" string "string option"

fun message_content :: "'n message \<Rightarrow> 'n content" where
  "message_content (SystemMessage c i) = c"
| "message_content (HumanMessage c i) = c"
| "message_content (AIMessage c tcs i) = c"
| "message_content (ToolMessage c t i) = c"

fun message_id :: "'n message \<Rightarrow> string option" where
  "message_id (SystemMessage c i) = i"
| "message_id (HumanMessage c i) = i"
| "message_id (AIMessage c tcs i) = i"
| "message_id (ToolMessage c t i) = i"

fun class_name :: "'n message \<Rightarrow> string" where
  "class_name (SystemMessage c i) = ''SystemMessage''"
| "class_name (HumanMessage c i) = ''HumanMessage''"
| "class_name (AIMessage c tcs i) = ''AIMessage''"
| "class_name (ToolMessage c t i) = ''ToolMessage''"

text \<open>\<open>xs[-1]\<close>\<close>

definition py_last :: "'a list \<Rightarrow> py_error + 'a" where
  "py_last xs = (if xs = [] then Inl (PyErr IndexError ''list index out of range'') else Inr (last xs))"

text \<open>The text of the AttributeError for a missing attribute of an object of a class.\<close>

definition no_attribute :: "string \<Rightarrow> string \<Rightarrow> string" where
  "no_attribute cls attr =
     CHR 0x27 # cls @ [CHR 0x27] @ '' object has no attribute '' @ CHR 0x27 # attr @ [CHR 0x27]"

subsection \<open>The reducer of the state\<close>

text \<open>
  The state of the graph is \<open>MessagesState\<close>: a list of messages that every update
  goes through the reducer \<open>add_messages\<close>. The reducer takes the new messages one by
  one: a message whose id is the id of a message of the list takes the place of that
  message, any other message is put at the end. \<open>find_id\<close> is the position the
  reducer keeps for an id (the last message with this id).
\<close>

fun find_id :: "string \<Rightarrow> 'n message list \<Rightarrow> nat option" where
  "find_id i [] = None"
| "find_id i (m # ms) =
     (case find_id i ms of
        Some k \<Rightarrow> Some (Suc k)
      | None \<Rightarrow> if message_id m = Some i then Some 0 else None)"

definition add_message :: "'n message list \<Rightarrow> 'n message \<Rightarrow> 'n message list" where
  "add_message merged m =
     (case message_id m of
        None \<Rightarrow> merged @ [m]
      | Some i \<Rightarrow>
          (case find_id i merged of
             None \<Rightarrow> merged @ [m]
           | Some existing_idx \<Rightarrow> merged[existing_idx := m]))"

definition add_messages :: "'n message list \<Rightarrow> 'n message list \<Rightarrow> 'n message list" where
  "add_messages left right = foldl add_message left right"

section \<open>graph.py\<close>

text \<open>
  The agent is what the compiled graph works with. \<open>llm\<close> is
  \<open>llm_with_tools.invoke\<close>: given the conversation it returns an assistant message (its
  content, the tool calls it requests and the id it carries, if any) or raises.
  \<open>invoke_tool\<close> is what the prebuilt tool node does with one requested call: it yields
  the content of the tool message, or raises. \<open>error_text\<close> is the wording the graph
  runtime gives an error of a class that it raises itself, for the recursion limit of
  the run.
\<close>

record 'n agent =
  llm :: "'n message list \<Rightarrow> py_error + ('n content \<times> 'n tool_call list \<times> string option)"
  invoke_tool :: "'n tool_call \<Rightarrow> py_error + 'n content"
  error_text :: "exn_kind \<Rightarrow> nat \<Rightarrow> string"

text \<open>A node returns the messages that the reducer adds to the state.\<close>

definition reasoner_node :: "'n agent \<Rightarrow> 'n message list \<Rightarrow> py_error + 'n message list" where
  "reasoner_node ag state_messages =
     (let messages = SystemMessage (Text SYSTEM_PROMPT) None # state_messages in
      ebind (llm ag messages) (\<lambda>(c, tcs, i). Inr [AIMessage c tcs i]))"

definition check_for_tools :: "'n message list \<Rightarrow> py_error + string" where
  "check_for_tools state_messages =
     ebind (py_last state_messages) (\<lambda>last_message.
       case last_message of
         AIMessage c tcs i \<Rightarrow> if tcs \<noteq> [] then Inr ''tools'' else Inr ''end''
       | _ \<Rightarrow> Inl (PyErr AttributeError (no_attribute (class_name last_message) ''tool_calls'')))"

text \<open>Run \<open>f\<close> on each element in order; the first exception ends the traversal.\<close>

fun emap :: "('a \<Rightarrow> py_error + 'b) \<Rightarrow> 'a list \<Rightarrow> py_error + 'b list" where
  "emap f [] = Inr []"
| "emap f (x # xs) = ebind (f x) (\<lambda>y. ebind (emap f xs) (\<lambda>ys. Inr (y # ys)))"

text \<open>
  The prebuilt tool node: one tool message, built without an id, for each call
  requested by the last message, in the order of the requests.
\<close>

definition tool_node :: "'n agent \<Rightarrow> 'n message list \<Rightarrow> py_error + 'n message list" where
  "tool_node ag state_messages =
     ebind (py_last state_messages) (\<lambda>last_message.
       case last_message of
         AIMessage c tcs i \<Rightarrow>
           emap (\<lambda>tc. ebind (invoke_tool ag tc) (\<lambda>out. Inr (ToolMessage out (call_id tc) None))) tcs
       | _ \<Rightarrow> Inl (PyErr ValueError ''Last message is not an AIMessage''))"

text \<open>
  \<^verbatim>\<open>build_graph\<close>: the nodes \<open>reasoner\<close> and \<open>tool\<close>, the edge from the start to the
  reasoner, the conditional edges from the reasoner (\<open>tools\<close> to the tool node, \<open>end\<close>
  to the end) and the edge from the tool node back to the reasoner.
\<close>

datatype node = Reasoner | Tool | END

definition entry_point :: node where
  "entry_point = Reasoner"

definition conditional_edges :: "string \<Rightarrow> node option" where
  "conditional_edges = map_of [(''tools'', Tool), (''end'', END)]"

text \<open>One step: run the node on the state, let the reducer add its messages, follow the edge.\<close>

fun graph_step :: "'n agent \<Rightarrow> node \<Rightarrow> 'n message list \<Rightarrow> py_error + (node \<times> 'n message list)" where
  "graph_step ag Reasoner msgs =
     ebind (reasoner_node ag msgs) (\<lambda>update.
       let msgs' = add_messages msgs update in
       ebind (check_for_tools msgs') (\<lambda>branch.
         case conditional_edges branch of
           None \<Rightarrow> Inl (PyErr KeyError branch)
         | Some nd \<Rightarrow> Inr (nd, msgs')))"
| "graph_step ag Tool msgs =
     ebind (tool_node ag msgs) (\<lambda>update. Inr (Reasoner, add_messages msgs update))"
| "graph_step ag END msgs = Inr (END, msgs)"

text \<open>
  The loop of the LangGraph runtime under a recursion limit. The limit is the largest
  number of super-steps of one run; in this graph a super-step runs one node, so every
  run of a node takes one step of the limit. The loop looks at the steps that are left
  before it looks for the next node: when none is left it is out of steps, also when
  the graph has just reached its end, so a run of \<open>k\<close> nodes finishes only under a
  limit of \<open>k + 1\<close> or more. The loop yields the way it ended and, for the record, the
  nodes that were run, each with the state it was entered with.
\<close>

datatype 'n run_end = Finished "'n message list" | OutOfSteps | Raised py_error

fun run_graph ::
  "'n agent \<Rightarrow> nat \<Rightarrow> node \<Rightarrow> 'n message list \<Rightarrow> 'n run_end \<times> (node \<times> 'n message list) list" where
  "run_graph ag 0 nd msgs = (OutOfSteps, [])"
| "run_graph ag (Suc n) END msgs = (Finished msgs, [])"
| "run_graph ag (Suc n) nd msgs =
     (case graph_step ag nd msgs of
        Inl e \<Rightarrow> (Raised e, [(nd, msgs)])
      | Inr (nd', msgs') \<Rightarrow>
          (let (r, trace) = run_graph ag n nd' msgs' in (r, (nd, msgs) # trace)))"

text \<open>
  A run: a limit below 1 is refused with a ValueError before anything is run;
  otherwise the input goes through the reducer into the empty state and the loop
  starts at the entry point.
\<close>

definition pregel_loop ::
  "'n agent \<Rightarrow> nat \<Rightarrow> 'n message list \<Rightarrow> 'n run_end \<times> (node \<times> 'n message list) list" where
  "pregel_loop ag limit input =
     (if limit < 1 then (Raised (PyErr ValueError (error_text ag ValueError limit)), [])
      else run_graph ag limit entry_point (add_messages [] input))"

text \<open>
  \<open>app.invoke\<close>: the final state of the run; a run that is out of steps raises the
  recursion error.
\<close>

definition invoke ::
  "'n agent \<Rightarrow> nat \<Rightarrow> 'n message list
     \<Rightarrow> (py_error + 'n message list) \<times> (node \<times> 'n message list) list" where
  "invoke ag limit input =
     (case pregel_loop ag limit input of
        (Finished result_state, trace) \<Rightarrow> (Inr result_state, trace)
      | (OutOfSteps, trace) \<Rightarrow>
          (Inl (PyErr GraphRecursionError (error_text ag GraphRecursionError limit)), trace)
      | (Raised e, trace) \<Rightarrow> (Inl e, trace))"

text \<open>The number of runs of the tool node, and of the reasoner, in a trace.\<close>

definition dispatch_cycles :: "(node \<times> 'n message list) list \<Rightarrow> nat" where
  "dispatch_cycles trace = length (filter (\<lambda>e. fst e = Tool) trace)"

definition reasoner_invocations :: "(node \<times> 'n message list) list \<Rightarrow> nat" where
  "reasoner_invocations trace = length (filter (\<lambda>e. fst e = Reasoner) trace)"

section \<open>main.py\<close>

definition recursion_limit :: nat where
  "recursion_limit = 50"

text \<open>The value a part contributes to \<open>text_parts\<close>, if it contributes.\<close>

fun text_part :: "'n json \<Rightarrow> 'n json option" where
  "text_part (JObj part) =
     (if map_of part ''type'' = Some (JStr ''text'')
      then Some (case map_of part ''text'' of None \<Rightarrow> JStr [] | Some v \<Rightarrow> v)
      else None)"
| "text_part v = None"

text \<open>\<open>''.join(text_parts)\<close>: every item has to be a string.\<close>

fun join_parts :: "'n json list \<Rightarrow> py_error + string" where
  "join_parts [] = Inr []"
| "join_parts (JStr s # ps) = ebind (join_parts ps) (\<lambda>r. Inr (s @ r))"
| "join_parts (v # ps) = Inl (PyErr TypeError ''sequence item: expected str instance'')"

fun postprocess :: "'n content \<Rightarrow> py_error + string" where
  "postprocess (Text s) = Inr s"
| "postprocess (Parts answer) = join_parts (List.map_filter text_part answer)"

definition answer_query ::
  "'n agent \<Rightarrow> string \<Rightarrow> 'n message list option
     \<Rightarrow> (py_error + string) \<times> (node \<times> 'n message list) list" where
  "answer_query ag user_query chat_history =
     (let chat_history' = (case chat_history of None \<Rightarrow> [] | Some h \<Rightarrow> h);
          messages = chat_history' @ [HumanMessage (Text user_query) None];
          (result_state, trace) = invoke ag recursion_limit messages
      in (ebind result_state (\<lambda>result_messages.
            ebind (py_last result_messages) (\<lambda>m. postprocess (message_content m))),
          trace))"

section \<open>api.py\<close>

record chat_message =
  role :: string
  content :: string

record chat_request =
  message :: string
  chat_history :: "chat_message list"

record chat_response =
  response :: string

fun convert_history :: "chat_message list \<Rightarrow> 'n message list" where
  "convert_history [] = []"
| "convert_history (msg # rest) =
     (if role msg = ''user'' then HumanMessage (Text (content msg)) None # convert_history rest
      else if role msg = ''assistant'' then AIMessage (Text (content msg)) [] None # convert_history rest
      else convert_history rest)"

definition chat :: "'n agent \<Rightarrow> chat_request \<Rightarrow> py_error + chat_response" where
  "chat ag request =
     (let history = convert_history (chat_history request) in
      case fst (answer_query ag (message request) (Some history)) of
        Inr full_response \<Rightarrow>
          if full_response = [] then Inr \<lparr> response = ''Sorry, I was not able to generate an answer.'' \<rparr>
          else Inr \<lparr> response = full_response \<rparr>
      | Inl (PyErr k msg) \<Rightarrow> Inr \<lparr> response = ''A error occurred: '' @ msg \<rparr>)"

section \<open>A concrete environment\<close>

text \<open>
  An environment on which the definitions can be run: the 4th of November 2026
  (ordinal 739924), a geocoder that knows Berlin (two hits) and nothing else, and a
  forecast series of eleven days. Numbers are integers, in tenths.
\<close>

definition example_times :: "int json list" where
  "example_times =
     [JStr ''2026-11-04'', JStr ''2026-11-05'', JStr ''2026-11-06'', JStr ''2026-11-07'',
      JStr ''2026-11-08'', JStr ''2026-11-09'', JStr ''2026-11-10'', JStr ''2026-11-11'',
      JStr ''2026-11-12'', JStr ''2026-11-13'', JStr ''2026-11-14'']"

definition example_tmax :: "int json list" where
  "example_tmax =
     [JNum 91, JNum 88, JNum 102, JNum 97, JNum 85, JNum 79, JNum 81, JNum 90, JNum 94,
      JNum 87, JNum 76]"

definition example_tmin :: "int json list" where
  "example_tmin =
     [JNum 42, JNum 39, JNum 51, JNum 47, JNum 33, JNum 28, JNum 30, JNum 41, JNum 45,
      JNum 36, JNum 25]"

definition example_psum :: "int json list" where
  "example_psum =
     [JNum 0, JNum 12, JNum 3, JNum 0, JNum 0, JNum 45, JNum 20, JNum 0, JNum 0, JNum 7,
      JNum 0]"

definition example_cc :: "int json list" where
  "example_cc =
     [JNum 60, JNum 85, JNum 70, JNum 40, JNum 35, JNum 95, JNum 90, JNum 50, JNum 45,
      JNum 75, JNum 30]"

definition example_daily :: "int pydict" where
  "example_daily =
     [(''time'', JArr example_times),
      (''temperature_2m_max'', JArr example_tmax),
      (''temperature_2m_min'', JArr example_tmin),
      (''precipitation_sum'', JArr example_psum),
      (''cloudcover_mean'', JArr example_cc)]"

definition example_hits :: "int json list" where
  "example_hits =
     [JObj [(''lat'', JStr ''52.5''), (''lon'', JStr ''13.4'')],
      JObj [(''lat'', JStr ''44.5''), (''lon'', JStr ''-71.2'')]]"

definition example_http :: "int request \<Rightarrow> py_error + int json" where
  "example_http req =
     (if url req = ''https://nominatim.openstreetmap.org/search'' then
        (if map_of (params req) ''city'' = Some (JStr ''Berlin'') then Inr (JArr example_hits)
         else Inr (JArr []))
      else if url req = ''https://api.open-meteo.com/v1/ecmwf'' then
        Inr (JObj [(''daily'', JObj example_daily)])
      else if url req = ''https://api.open-meteo.com/v1/forecast'' then
        Inr (JObj [(''current_weather'',
                    JObj [(''temperature'', JNum 91), (''windspeed'', JNum 120),
                          (''winddirection'', JNum 2700), (''weathercode'', JNum 30),
                          (''time'', JStr ''2026-11-04T12:00'')])])
      else Inl (PyErr URLError ''unknown host''))"

definition example_env :: "int env" where
  "example_env =
     \<lparr> http = example_http,
       utc_today = 739924,
       berlin_now = 739924,
       strptime = map_of [(''2026-11-04'', 739924), (''2026-11-05'', 739925),
                          (''2026-11-14'', 739934), (''2026-11-15'', 739935),
                          (''2026-11-3'', 739923), (''2026-11-9'', 739929)],
       strftime = (\<lambda>d. if d = 739924 then ''2026-11-04'' else if d = 739925 then ''2026-11-05''
                         else ''2026-11-14''),
       dateparser_parse = (\<lambda>s. if s = ''tomorrow'' then Inr (Some 739925) else Inr None),
       parse_float = case_sum (map_of [(''52.5'', 525), (''13.4'', 134), (''44.5'', 445), (''-71.2'', -712)]) Some \<rparr>"

text \<open>The same environment with a geocoder whose one hit has no coordinates.\<close>

definition null_geo_env :: "int env" where
  "null_geo_env =
     example_env\<lparr>http := (\<lambda>req. Inr (JArr [JObj [(''lat'', JNull), (''lon'', JNull)]]))\<rparr>"

definition example_store :: vectorstore where
  "example_store q k =
     Inr (take k [\<lparr> page_content = ''Berlin is the capital of Germany.'' \<rparr>,
                  \<lparr> page_content = ''Pack an umbrella in November.'' \<rparr>,
                  \<lparr> page_content = ''The U-Bahn runs all night on weekends.'' \<rparr>])"

text \<open>
  Agents whose model gives the same reply whatever the conversation, and whose tools
  all answer \<open>null\<close>; a chat request with a short history.
\<close>

definition example_call :: "int tool_call" where
  "example_call =
     \<lparr> tool_name = ''get_weather_from_city_name'',
       tool_args = [(''city'', JStr ''Berlin''), (''country'', JStr ''Germany'')],
       call_id = ''call_1'' \<rparr>"

definition example_error_text :: "exn_kind \<Rightarrow> nat \<Rightarrow> string" where
  "example_error_text k limit =
     (if k = GraphRecursionError then ''Recursion limit reached without hitting a stop condition''
      else ''recursion_limit must be at least 1'')"

definition example_agent ::
  "py_error + (int content \<times> int tool_call list \<times> string option) \<Rightarrow> int agent" where
  "example_agent reply =
     \<lparr> llm = (\<lambda>messages. reply), invoke_tool = (\<lambda>tc. Inr (Text ''null'')),
       error_text = example_error_text \<rparr>"

definition looping_agent :: "int agent" where
  "looping_agent = example_agent (Inr (Text [], [example_call], None))"

definition same_id_agent :: "int agent" where
  "same_id_agent = example_agent (Inr (Text [], [example_call], Some ''run-1''))"

definition example_chat_request :: chat_request where
  "example_chat_request =
     \<lparr> message = ''What is the weather in Berlin?'',
       chat_history = [\<lparr> role = ''user'', content = ''Hi'' \<rparr>,
                       \<lparr> role = ''assistant'', content = ''Hello!'' \<rparr>,
                       \<lparr> role = ''system'', content = ''dropped'' \<rparr>] \<rparr>"

section \<open>Properties of the tools\<close>

subsection \<open>Helper facts\<close>

lemma list_index_mem: "(list_index x xs \<noteq> None) = (x \<in> set xs)"
  by (induction xs) auto

lemma forecast_unparsable:
  "strptime env forecast_date = None \<Longrightarrow> utc_today env + 10 \<le> date_max \<Longrightarrow>
   get_weather_forecast env latitude longitude forecast_date = (Inr None, [])"
  by (simp add: get_weather_forecast_def)

lemma forecast_out_of_range:
  "strptime env forecast_date = Some d \<Longrightarrow> utc_today env + 10 \<le> date_max \<Longrightarrow>
   d < utc_today env \<or> utc_today env + 10 < d \<Longrightarrow>
   get_weather_forecast env latitude longitude forecast_date = (Inr None, [])"
  by (auto simp add: get_weather_forecast_def Let_def)

lemma forecast_in_range:
  "strptime env forecast_date = Some d \<Longrightarrow> utc_today env + 10 \<le> date_max \<Longrightarrow>
   utc_today env \<le> d \<Longrightarrow> d \<le> utc_today env + 10 \<Longrightarrow>
   get_weather_forecast env latitude longitude forecast_date =
     (try_except [URLError, HTTPError, KeyError, ValueError, IndexError] None
        (ebind (http env (forecast_request latitude longitude)) (forecast_entry forecast_date)),
      [forecast_request latitude longitude])"
  by (auto simp add: get_weather_forecast_def Let_def http_get_def)

lemma forecast_some_cases:
  assumes "get_weather_forecast env latitude longitude forecast_date = (Inr (Some r), log)"
  shows "\<exists>d data. strptime env forecast_date = Some d \<and> utc_today env \<le> d \<and> d \<le> utc_today env + 10
          \<and> http env (forecast_request latitude longitude) = Inr data
          \<and> forecast_entry forecast_date data = Inr (Some r)
          \<and> log = [forecast_request latitude longitude]"
  using assms
  by (auto simp add: get_weather_forecast_def Let_def http_get_def try_except_def ebind_def
      split: if_splits option.splits sum.splits py_error.splits)

lemma forecast_entry_some:
  assumes "forecast_entry forecast_date data = Inr (Some r)"
  shows "\<exists>daily_data times. py_getitem data ''daily'' = Inr daily_data
          \<and> py_get daily_data ''time'' (JArr []) = Inr times
          \<and> py_in forecast_date times = Inr True"
  using assms
  by (auto simp add: forecast_entry_def ebind_def split: sum.splits if_splits)

lemma forecast_entry_wellformed:
  assumes "map_of body ''daily'' = Some (JObj dd)"
    and "map_of dd ''time'' = Some (JArr ts)"
    and "list_index (JStr forecast_date) ts = Some i"
    and "map_of dd ''temperature_2m_max'' = Some (JArr tmax)" and "i < length tmax"
    and "map_of dd ''temperature_2m_min'' = Some (JArr tmin)" and "i < length tmin"
    and "map_of dd ''precipitation_sum'' = Some (JArr psum)" and "i < length psum"
    and "map_of dd ''cloudcover_mean'' = Some (JArr cc)" and "i < length cc"
  shows "forecast_entry forecast_date (JObj body) =
           Inr (Some [(''date'', JStr forecast_date), (''temperature_max'', tmax ! i),
                      (''temperature_min'', tmin ! i), (''precipitation_sum'', psum ! i),
                      (''cloudcover_mean'', cc ! i)])"
proof -
  have mem: "JStr forecast_date \<in> set ts"
    using assms(3) list_index_mem [of "JStr forecast_date" ts] by simp
  show ?thesis
    using assms mem by (simp add: forecast_entry_def ebind_def)
qed

lemma forecast_entry_absent:
  assumes "map_of body ''daily'' = Some (JObj dd)"
    and "map_of dd ''time'' = Some (JArr ts)"
    and "JStr forecast_date \<notin> set ts"
  shows "forecast_entry forecast_date (JObj body) = Inr None"
  using assms by (simp add: forecast_entry_def ebind_def)

lemma forecast_absent:
  assumes "utc_today env + 10 \<le> date_max"
    and "http env (forecast_request latitude longitude) = Inr (JObj body)"
    and "map_of body ''daily'' = Some (JObj dd)"
    and "map_of dd ''time'' = Some (JArr ts)"
    and "JStr forecast_date \<notin> set ts"
  shows "fst (get_weather_forecast env latitude longitude forecast_date) = Inr None"
  using assms forecast_entry_absent [OF assms(3,4,5)]
  by (auto simp add: get_weather_forecast_def Let_def http_get_def try_except_def ebind_def
      split: option.splits)

lemma geo_zero:
  "http env (geo_request city country) = Inr (JArr []) \<Longrightarrow>
   get_latitude_longitude env city country = (Inr None, [geo_request city country])"
  by (simp add: get_latitude_longitude_def http_get_def ebind_def try_except_def)

lemma geo_first:
  assumes "http env (geo_request city country) = Inr (JArr (JObj first # rest))"
    and "map_of first ''lat'' = Some lat" and "py_float (parse_float env) lat = Inr la"
    and "map_of first ''lon'' = Some lon" and "py_float (parse_float env) lon = Inr lo"
  shows "get_latitude_longitude env city country = (Inr (Some (la, lo)), [geo_request city country])"
  using assms by (simp add: get_latitude_longitude_def http_get_def ebind_def try_except_def)

lemma geo_tail_irrelevant:
  assumes "http env (geo_request city country) = Inr (JArr (x # rest))"
  shows "get_latitude_longitude env city country =
         get_latitude_longitude
           (env\<lparr>http := (http env)(geo_request city country := Inr (JArr [x]))\<rparr>) city country"
  using assms by (simp add: get_latitude_longitude_def http_get_def ebind_def try_except_def)

lemma geo_neq_weather: "weather_request la lo \<noteq> geo_request city country"
  by (simp add: weather_request_def geo_request_def)

lemma get_weather_http_cong:
  "h' (weather_request la lo) = http env (weather_request la lo) \<Longrightarrow>
   get_weather (env\<lparr>http := h'\<rparr>) la lo = get_weather env la lo"
  by (simp add: get_weather_def http_get_def)

lemma weather_tail_irrelevant:
  assumes "http env (geo_request city country) = Inr (JArr (x # rest))"
  shows "get_weather_from_city_name env city country =
         get_weather_from_city_name
           (env\<lparr>http := (http env)(geo_request city country := Inr (JArr [x]))\<rparr>) city country"
proof -
  let ?env' = "env\<lparr>http := (http env)(geo_request city country := Inr (JArr [x]))\<rparr>"
  have g: "get_latitude_longitude env city country = get_latitude_longitude ?env' city country"
    using geo_tail_irrelevant [OF assms] .
  have w: "\<And>la lo. get_weather ?env' la lo = get_weather env la lo"
    by (rule get_weather_http_cong) (simp add: geo_neq_weather)
  show ?thesis
    unfolding get_weather_from_city_name_def g w ..
qed

lemma weather_zero:
  "http env (geo_request city country) = Inr (JArr []) \<Longrightarrow>
   get_weather_from_city_name env city country = (Inr None, [geo_request city country])"
  by (simp add: get_weather_from_city_name_def geo_zero)

lemma weather_first:
  assumes "http env (geo_request city country) = Inr (JArr (JObj first # rest))"
    and "map_of first ''lat'' = Some lat" and "py_float (parse_float env) lat = Inr la"
    and "map_of first ''lon'' = Some lon" and "py_float (parse_float env) lon = Inr lo"
  shows "get_weather_from_city_name env city country =
           (fst (get_weather env la lo), geo_request city country # snd (get_weather env la lo))"
  using geo_first [OF assms]
  by (simp add: get_weather_from_city_name_def split_beta)

lemma phrase_fallback:
  assumes "dateparser_parse env date_phrase = Inr None"
  shows "get_weather_forecast_from_city_name_date_phrase env city country date_phrase =
           (try_except_all None
              (fst (get_weather_forecast_from_city_name env city country (strftime env (berlin_now env)))),
            snd (get_weather_forecast_from_city_name env city country (strftime env (berlin_now env))))"
  using assms
  by (simp add: get_weather_forecast_from_city_name_date_phrase_def Let_def split_beta)

lemmas example_defs =
  example_env_def example_http_def example_daily_def example_hits_def date_max_def
  example_times_def example_tmax_def example_tmin_def example_psum_def example_cc_def
  geo_request_def weather_request_def forecast_request_def

subsection \<open>Forecast by date\<close>

text \<open>
  C2. \<^verbatim>\<open>get_weather_forecast\<close> returns an entry only when the requested date parses to
  a day from today (UTC) to ten days later, both included, and the date string is found
  in the \<open>time\<close> series of the response (for a series that is a list: as one of its
  elements, by equality of strings). A date that is exactly ten days after today and
  has an entry in a well-formed series yields that entry; a date eleven days after
  today yields null without a fetch; a date that the series does not contain yields
  null.
\<close>

theorem forecast_by_date_window:
  "(get_weather_forecast env latitude longitude fd = (Inr (Some r), log) \<longrightarrow>
      (\<exists>d data daily_data times.
         strptime env fd = Some d \<and> utc_today env \<le> d \<and> d \<le> utc_today env + 10
         \<and> http env (forecast_request latitude longitude) = Inr data
         \<and> py_getitem data ''daily'' = Inr daily_data
         \<and> py_get daily_data ''time'' (JArr []) = Inr times
         \<and> py_in fd times = Inr True
         \<and> (\<forall>ts. times = JArr ts \<longrightarrow> JStr fd \<in> set ts)))
   \<and> (utc_today env + 10 \<le> date_max
        \<and> strptime env fd_ten = Some (utc_today env + 10)
        \<and> http env (forecast_request latitude longitude) = Inr (JObj body)
        \<and> map_of body ''daily'' = Some (JObj dd)
        \<and> map_of dd ''time'' = Some (JArr series)
        \<and> list_index (JStr fd_ten) series = Some i
        \<and> map_of dd ''temperature_2m_max'' = Some (JArr tmax) \<and> i < length tmax
        \<and> map_of dd ''temperature_2m_min'' = Some (JArr tmin) \<and> i < length tmin
        \<and> map_of dd ''precipitation_sum'' = Some (JArr psum) \<and> i < length psum
        \<and> map_of dd ''cloudcover_mean'' = Some (JArr cc) \<and> i < length cc
      \<longrightarrow> get_weather_forecast env latitude longitude fd_ten =
            (Inr (Some [(''date'', JStr fd_ten), (''temperature_max'', tmax ! i),
                        (''temperature_min'', tmin ! i), (''precipitation_sum'', psum ! i),
                        (''cloudcover_mean'', cc ! i)]),
             [forecast_request latitude longitude]))
   \<and> (utc_today env + 10 \<le> date_max \<and> strptime env fd_eleven = Some (utc_today env + 11)
      \<longrightarrow> get_weather_forecast env latitude longitude fd_eleven = (Inr None, []))
   \<and> (utc_today env + 10 \<le> date_max
        \<and> http env (forecast_request latitude longitude) = Inr (JObj body)
        \<and> map_of body ''daily'' = Some (JObj dd)
        \<and> map_of dd ''time'' = Some (JArr series)
        \<and> JStr fd_absent \<notin> set series
      \<longrightarrow> fst (get_weather_forecast env latitude longitude fd_absent) = Inr None)"
proof (intro conjI impI)
  assume a: "get_weather_forecast env latitude longitude fd = (Inr (Some r), log)"
  from forecast_some_cases [OF a] obtain d data where
    d: "strptime env fd = Some d" "utc_today env \<le> d" "d \<le> utc_today env + 10"
       "http env (forecast_request latitude longitude) = Inr data"
    and e: "forecast_entry fd data = Inr (Some r)"
    by blast
  from forecast_entry_some [OF e] obtain daily_data times where
    t: "py_getitem data ''daily'' = Inr daily_data"
       "py_get daily_data ''time'' (JArr []) = Inr times"
       "py_in fd times = Inr True"
    by blast
  have "\<forall>ts. times = JArr ts \<longrightarrow> JStr fd \<in> set ts"
    using t(3) by auto
  with d t show "\<exists>d data daily_data times.
         strptime env fd = Some d \<and> utc_today env \<le> d \<and> d \<le> utc_today env + 10
         \<and> http env (forecast_request latitude longitude) = Inr data
         \<and> py_getitem data ''daily'' = Inr daily_data
         \<and> py_get daily_data ''time'' (JArr []) = Inr times
         \<and> py_in fd times = Inr True
         \<and> (\<forall>ts. times = JArr ts \<longrightarrow> JStr fd \<in> set ts)"
    by blast
next
  assume b: "utc_today env + 10 \<le> date_max
        \<and> strptime env fd_ten = Some (utc_today env + 10)
        \<and> http env (forecast_request latitude longitude) = Inr (JObj body)
        \<and> map_of body ''daily'' = Some (JObj dd)
        \<and> map_of dd ''time'' = Some (JArr series)
        \<and> list_index (JStr fd_ten) series = Some i
        \<and> map_of dd ''temperature_2m_max'' = Some (JArr tmax) \<and> i < length tmax
        \<and> map_of dd ''temperature_2m_min'' = Some (JArr tmin) \<and> i < length tmin
        \<and> map_of dd ''precipitation_sum'' = Some (JArr psum) \<and> i < length psum
        \<and> map_of dd ''cloudcover_mean'' = Some (JArr cc) \<and> i < length cc"
  then have entry: "forecast_entry fd_ten (JObj body) =
           Inr (Some [(''date'', JStr fd_ten), (''temperature_max'', tmax ! i),
                      (''temperature_min'', tmin ! i), (''precipitation_sum'', psum ! i),
                      (''cloudcover_mean'', cc ! i)])"
    by (intro forecast_entry_wellformed [where dd = dd and ts = series]) simp_all
  from b have "get_weather_forecast env latitude longitude fd_ten =
     (try_except [URLError, HTTPError, KeyError, ValueError, IndexError] None
        (ebind (http env (forecast_request latitude longitude)) (forecast_entry fd_ten)),
      [forecast_request latitude longitude])"
    by (intro forecast_in_range [where d = "utc_today env + 10"]) simp_all
  with b entry show "get_weather_forecast env latitude longitude fd_ten =
            (Inr (Some [(''date'', JStr fd_ten), (''temperature_max'', tmax ! i),
                        (''temperature_min'', tmin ! i), (''precipitation_sum'', psum ! i),
                        (''cloudcover_mean'', cc ! i)]),
             [forecast_request latitude longitude])"
    by (simp add: ebind_def try_except_def)
next
  assume "utc_today env + 10 \<le> date_max \<and> strptime env fd_eleven = Some (utc_today env + 11)"
  then show "get_weather_forecast env latitude longitude fd_eleven = (Inr None, [])"
    by (intro forecast_out_of_range [where d = "utc_today env + 11"]) simp_all
next
  assume "utc_today env + 10 \<le> date_max
        \<and> http env (forecast_request latitude longitude) = Inr (JObj body)
        \<and> map_of body ''daily'' = Some (JObj dd)
        \<and> map_of dd ''time'' = Some (JArr series)
        \<and> JStr fd_absent \<notin> set series"
  then show "fst (get_weather_forecast env latitude longitude fd_absent) = Inr None"
    by (intro forecast_absent [where body = body and dd = dd and ts = series]) simp_all
qed

theorem forecast_by_date_window_witness:
  "get_weather_forecast example_env 525 134 ''2026-11-14'' =
     (Inr (Some [(''date'', JStr ''2026-11-14''), (''temperature_max'', JNum 76),
                 (''temperature_min'', JNum 25), (''precipitation_sum'', JNum 0),
                 (''cloudcover_mean'', JNum 30)]),
      [forecast_request 525 134])
   \<and> utc_today example_env + 10 \<le> date_max
   \<and> strptime example_env ''2026-11-14'' = Some (utc_today example_env + 10)
   \<and> http example_env (forecast_request 525 134) = Inr (JObj [(''daily'', JObj example_daily)])
   \<and> list_index (JStr ''2026-11-14'') example_times = Some 10
   \<and> strptime example_env ''2026-11-15'' = Some (utc_today example_env + 11)
   \<and> get_weather_forecast example_env 525 134 ''2026-11-15'' = (Inr None, [])
   \<and> JStr ''2026-11-9'' \<notin> set example_times
   \<and> fst (get_weather_forecast example_env 525 134 ''2026-11-9'') = Inr None
   \<and> JStr ''2026-11-14'' \<in> set example_times"
proof -
  have clock: "utc_today example_env + 10 \<le> date_max"
    by (simp add: example_env_def date_max_def)
  have p10: "strptime example_env ''2026-11-14'' = Some (utc_today example_env + 10)"
    and p11: "strptime example_env ''2026-11-15'' = Some (utc_today example_env + 11)"
    by (simp_all add: example_env_def)
  have resp: "http example_env (forecast_request 525 134) = Inr (JObj [(''daily'', JObj example_daily)])"
    by (simp add: example_env_def example_http_def forecast_request_def)
  have idx: "list_index (JStr ''2026-11-14'') example_times = Some 10"
    by (simp add: example_times_def)
  have absent: "JStr ''2026-11-9'' \<notin> set example_times"
    by (simp add: example_times_def)
  have series: "map_of example_daily ''time'' = Some (JArr example_times)"
      "map_of example_daily ''temperature_2m_max'' = Some (JArr example_tmax)"
      "map_of example_daily ''temperature_2m_min'' = Some (JArr example_tmin)"
      "map_of example_daily ''precipitation_sum'' = Some (JArr example_psum)"
      "map_of example_daily ''cloudcover_mean'' = Some (JArr example_cc)"
    by (simp_all add: example_daily_def)
  have len: "10 < length example_tmax" "10 < length example_tmin"
      "10 < length example_psum" "10 < length example_cc"
    by (simp_all add: example_tmax_def example_tmin_def example_psum_def example_cc_def)
  have vals: "example_tmax ! 10 = JNum 76" "example_tmin ! 10 = JNum 25"
      "example_psum ! 10 = JNum 0" "example_cc ! 10 = JNum 30"
    by (simp_all add: example_tmax_def example_tmin_def example_psum_def example_cc_def)
  note t = forecast_by_date_window [where env = example_env and latitude = 525 and longitude = 134
      and fd = "''2026-11-14''" and fd_ten = "''2026-11-14''" and fd_eleven = "''2026-11-15''"
      and fd_absent = "''2026-11-9''" and body = "[(''daily'', JObj example_daily)]"
      and dd = example_daily and series = example_times and i = 10
      and tmax = example_tmax and tmin = example_tmin and psum = example_psum and cc = example_cc
      and r = "[(''date'', JStr ''2026-11-14''), (''temperature_max'', JNum 76),
                 (''temperature_min'', JNum 25), (''precipitation_sum'', JNum 0),
                 (''cloudcover_mean'', JNum 30)]"
      and log = "[forecast_request 525 134]"]
  have ten: "get_weather_forecast example_env 525 134 ''2026-11-14'' =
     (Inr (Some [(''date'', JStr ''2026-11-14''), (''temperature_max'', JNum 76),
                 (''temperature_min'', JNum 25), (''precipitation_sum'', JNum 0),
                 (''cloudcover_mean'', JNum 30)]),
      [forecast_request 525 134])"
    using t clock p10 resp idx series len vals by simp
  have member: "JStr ''2026-11-14'' \<in> set example_times"
    using t ten by (auto simp add: example_env_def example_http_def forecast_request_def example_daily_def)
  have eleven: "get_weather_forecast example_env 525 134 ''2026-11-15'' = (Inr None, [])"
    using t clock p11 by simp
  have gone: "fst (get_weather_forecast example_env 525 134 ''2026-11-9'') = Inr None"
    using t clock resp series absent by simp
  show ?thesis
    using ten clock p10 resp idx p11 eleven absent gone member by simp
qed

subsection \<open>Forecast by date: a date that does not parse\<close>

text \<open>
  C10. When the date string does not parse in the format \<open>%Y-%m-%d\<close>,
  \<^verbatim>\<open>get_weather_forecast\<close> returns null: it raises nothing and sends no request.
\<close>

theorem forecast_unparsable_date_null_no_fetch:
  assumes "strptime env forecast_date = None"
    and "utc_today env + 10 \<le> date_max"
  shows "get_weather_forecast env latitude longitude forecast_date = (Inr None, [])"
  using assms by (rule forecast_unparsable)

theorem forecast_unparsable_date_null_no_fetch_witness:
  "strptime example_env ''next Friday'' = None
   \<and> utc_today example_env + 10 \<le> date_max
   \<and> get_weather_forecast example_env 525 134 ''next Friday'' = (Inr None, [])"
proof -
  have h1: "strptime example_env ''next Friday'' = None"
    by (simp add: example_env_def)
  have h2: "utc_today example_env + 10 \<le> date_max"
    by (simp add: example_env_def date_max_def)
  show ?thesis
    using h1 h2 forecast_unparsable_date_null_no_fetch [OF h1 h2, of 525 134] by simp
qed

subsection \<open>Weather by city\<close>

text \<open>
  C4. When the geocoder answers with an empty list, \<^verbatim>\<open>get_weather_from_city_name\<close>
  returns null, raises nothing and does not ask for the weather. When the geocoder
  answers with a non-empty list, only its first element counts: cutting the list down
  to that element changes neither the coordinates nor the result of the tool, and when
  the first element holds a latitude and a longitude, these are the coordinates the
  weather is fetched for.
\<close>

theorem weather_by_city_geocoding:
  "(http env (geo_request city0 country0) = Inr (JArr [])
      \<longrightarrow> get_weather_from_city_name env city0 country0 = (Inr None, [geo_request city0 country0]))
   \<and> (http env (geo_request city country) = Inr (JArr (x # rest))
      \<longrightarrow> get_latitude_longitude env city country =
            get_latitude_longitude
              (env\<lparr>http := (http env)(geo_request city country := Inr (JArr [x]))\<rparr>) city country
          \<and> get_weather_from_city_name env city country =
            get_weather_from_city_name
              (env\<lparr>http := (http env)(geo_request city country := Inr (JArr [x]))\<rparr>) city country)
   \<and> (http env (geo_request city country) = Inr (JArr (JObj first # rest))
        \<and> map_of first ''lat'' = Some lat \<and> py_float (parse_float env) lat = Inr la
        \<and> map_of first ''lon'' = Some lon \<and> py_float (parse_float env) lon = Inr lo
      \<longrightarrow> get_latitude_longitude env city country = (Inr (Some (la, lo)), [geo_request city country])
          \<and> get_weather_from_city_name env city country =
            (fst (get_weather env la lo), geo_request city country # snd (get_weather env la lo)))"
  using weather_zero [of env city0 country0]
    geo_tail_irrelevant [of env city country x rest]
    weather_tail_irrelevant [of env city country x rest]
    geo_first [of env city country first rest lat la lon lo]
    weather_first [of env city country first rest lat la lon lo]
  by blast

theorem weather_by_city_geocoding_witness:
  "http example_env (geo_request ''Atlantis'' ''Nowhere'') = Inr (JArr [])
   \<and> get_weather_from_city_name example_env ''Atlantis'' ''Nowhere''
       = (Inr None, [geo_request ''Atlantis'' ''Nowhere''])
   \<and> http example_env (geo_request ''Berlin'' ''Germany'')
       = Inr (JArr (JObj [(''lat'', JStr ''52.5''), (''lon'', JStr ''13.4'')]
                    # [JObj [(''lat'', JStr ''44.5''), (''lon'', JStr ''-71.2'')]]))
   \<and> py_float (parse_float example_env) (JStr ''52.5'') = Inr 525
   \<and> py_float (parse_float example_env) (JStr ''13.4'') = Inr 134
   \<and> get_latitude_longitude example_env ''Berlin'' ''Germany''
       = (Inr (Some (525, 134)), [geo_request ''Berlin'' ''Germany''])
   \<and> get_weather_from_city_name example_env ''Berlin'' ''Germany''
       = (fst (get_weather example_env 525 134),
          geo_request ''Berlin'' ''Germany'' # snd (get_weather example_env 525 134))
   \<and> get_weather_from_city_name example_env ''Berlin'' ''Germany''
       = get_weather_from_city_name
           (example_env\<lparr>http := (http example_env)(geo_request ''Berlin'' ''Germany''
              := Inr (JArr [JObj [(''lat'', JStr ''52.5''), (''lon'', JStr ''13.4'')]]))\<rparr>)
           ''Berlin'' ''Germany''"
proof -
  have zero: "http example_env (geo_request ''Atlantis'' ''Nowhere'') = Inr (JArr [])"
    by (simp add: example_env_def example_http_def geo_request_def)
  have hits: "http example_env (geo_request ''Berlin'' ''Germany'')
       = Inr (JArr (JObj [(''lat'', JStr ''52.5''), (''lon'', JStr ''13.4'')]
                    # [JObj [(''lat'', JStr ''44.5''), (''lon'', JStr ''-71.2'')]]))"
    by (simp add: example_env_def example_http_def geo_request_def example_hits_def)
  have la: "py_float (parse_float example_env) (JStr ''52.5'') = Inr 525"
    and lo: "py_float (parse_float example_env) (JStr ''13.4'') = Inr 134"
    by (simp_all add: example_env_def)
  note t = weather_by_city_geocoding [where env = example_env
      and ?city0.0 = "''Atlantis''" and ?country0.0 = "''Nowhere''"
      and city = "''Berlin''" and country = "''Germany''"
      and x = "JObj [(''lat'', JStr ''52.5''), (''lon'', JStr ''13.4'')]"
      and first = "[(''lat'', JStr ''52.5''), (''lon'', JStr ''13.4'')]"
      and rest = "[JObj [(''lat'', JStr ''44.5''), (''lon'', JStr ''-71.2'')]]"
      and lat = "JStr ''52.5''" and la = 525 and lon = "JStr ''13.4''" and lo = 134]
  have none: "get_weather_from_city_name example_env ''Atlantis'' ''Nowhere''
       = (Inr None, [geo_request ''Atlantis'' ''Nowhere''])"
    using t [THEN conjunct1] zero by simp
  have cut: "get_weather_from_city_name example_env ''Berlin'' ''Germany''
       = get_weather_from_city_name
           (example_env\<lparr>http := (http example_env)(geo_request ''Berlin'' ''Germany''
              := Inr (JArr [JObj [(''lat'', JStr ''52.5''), (''lon'', JStr ''13.4'')]]))\<rparr>)
           ''Berlin'' ''Germany''"
    using t [THEN conjunct2, THEN conjunct1] hits by simp
  have coords: "get_latitude_longitude example_env ''Berlin'' ''Germany''
       = (Inr (Some (525, 134)), [geo_request ''Berlin'' ''Germany''])
     \<and> get_weather_from_city_name example_env ''Berlin'' ''Germany''
       = (fst (get_weather example_env 525 134),
          geo_request ''Berlin'' ''Germany'' # snd (get_weather example_env 525 134))"
    using t [THEN conjunct2, THEN conjunct2] hits la lo by simp
  show ?thesis
    using zero hits la lo none coords cut by blast
qed

subsection \<open>Forecast by phrase\<close>

text \<open>
  C3. When the date phrase cannot be parsed (\<open>dateparser.parse\<close> returns \<open>None\<close>, as
  for the empty string), \<^verbatim>\<open>get_weather_forecast_from_city_name_date_phrase\<close> does not
  fail: it takes today's date (the current date in Europe/Berlin) and calls the
  forecast-by-date tool for the same city and country and that date. Whatever that call
  returns, with the same requests, is what it returns; where that call raises an
  exception, it returns null.
\<close>

theorem forecast_by_phrase_fallback_today:
  assumes "dateparser_parse env date_phrase = Inr None"
  shows "(\<exists>r. fst (get_weather_forecast_from_city_name_date_phrase env city country date_phrase) = Inr r)
       \<and> (\<forall>r log.
            get_weather_forecast_from_city_name env city country (strftime env (berlin_now env))
              = (Inr r, log)
            \<longrightarrow> get_weather_forecast_from_city_name_date_phrase env city country date_phrase
              = (Inr r, log))
       \<and> (\<forall>e log.
            get_weather_forecast_from_city_name env city country (strftime env (berlin_now env))
              = (Inl e, log)
            \<longrightarrow> get_weather_forecast_from_city_name_date_phrase env city country date_phrase
              = (Inr None, log))"
  unfolding phrase_fallback [OF assms]
  by (auto simp add: try_except_all_def split: sum.splits)

theorem forecast_by_phrase_fallback_today_witness:
  "dateparser_parse example_env [] = Inr None
   \<and> get_weather_forecast_from_city_name example_env ''Berlin'' ''Germany''
         (strftime example_env (berlin_now example_env))
       = (Inr (Some [(''date'', JStr ''2026-11-04''), (''temperature_max'', JNum 91),
                     (''temperature_min'', JNum 42), (''precipitation_sum'', JNum 0),
                     (''cloudcover_mean'', JNum 60)]),
          [geo_request ''Berlin'' ''Germany'', forecast_request 525 134])
   \<and> get_weather_forecast_from_city_name_date_phrase example_env ''Berlin'' ''Germany'' []
       = (Inr (Some [(''date'', JStr ''2026-11-04''), (''temperature_max'', JNum 91),
                     (''temperature_min'', JNum 42), (''precipitation_sum'', JNum 0),
                     (''cloudcover_mean'', JNum 60)]),
          [geo_request ''Berlin'' ''Germany'', forecast_request 525 134])
   \<and> dateparser_parse null_geo_env [] = Inr None
   \<and> get_weather_forecast_from_city_name null_geo_env ''Berlin'' ''Germany''
         (strftime null_geo_env (berlin_now null_geo_env))
       = (Inl (PyErr TypeError ''float() argument must be a string or a real number''),
          [geo_request ''Berlin'' ''Germany''])
   \<and> get_weather_forecast_from_city_name_date_phrase null_geo_env ''Berlin'' ''Germany'' []
       = (Inr None, [geo_request ''Berlin'' ''Germany''])"
proof -
  have h: "dateparser_parse example_env [] = Inr None"
    by (simp add: example_env_def)
  have d: "get_weather_forecast_from_city_name example_env ''Berlin'' ''Germany''
         (strftime example_env (berlin_now example_env))
       = (Inr (Some [(''date'', JStr ''2026-11-04''), (''temperature_max'', JNum 91),
                     (''temperature_min'', JNum 42), (''precipitation_sum'', JNum 0),
                     (''cloudcover_mean'', JNum 60)]),
          [geo_request ''Berlin'' ''Germany'', forecast_request 525 134])"
    by (simp add: get_weather_forecast_from_city_name_def get_latitude_longitude_def
        get_weather_forecast_def forecast_entry_def http_get_def ebind_def try_except_def
        example_defs)
  have p: "get_weather_forecast_from_city_name_date_phrase example_env ''Berlin'' ''Germany'' []
       = (Inr (Some [(''date'', JStr ''2026-11-04''), (''temperature_max'', JNum 91),
                     (''temperature_min'', JNum 42), (''precipitation_sum'', JNum 0),
                     (''cloudcover_mean'', JNum 60)]),
          [geo_request ''Berlin'' ''Germany'', forecast_request 525 134])"
    using d forecast_by_phrase_fallback_today [OF h, of "''Berlin''" "''Germany''"] by simp
  have h': "dateparser_parse null_geo_env [] = Inr None"
    by (simp add: null_geo_env_def example_env_def)
  have d': "get_weather_forecast_from_city_name null_geo_env ''Berlin'' ''Germany''
         (strftime null_geo_env (berlin_now null_geo_env))
       = (Inl (PyErr TypeError ''float() argument must be a string or a real number''),
          [geo_request ''Berlin'' ''Germany''])"
    by (simp add: get_weather_forecast_from_city_name_def get_latitude_longitude_def
        http_get_def ebind_def try_except_def null_geo_env_def)
  have p': "get_weather_forecast_from_city_name_date_phrase null_geo_env ''Berlin'' ''Germany'' []
       = (Inr None, [geo_request ''Berlin'' ''Germany''])"
    using d' forecast_by_phrase_fallback_today [OF h', of "''Berlin''" "''Germany''"] by simp
  show ?thesis
    by (intro conjI) (rule h d p h' d' p')+
qed

text \<open>
  A geocoder that answers with a hit whose latitude is \<open>null\<close>: \<open>float(None)\<close>
  raises a TypeError, which no handler of the forecast-by-date tool catches, so that
  tool raises, while the forecast-by-phrase tool, given the empty phrase, returns
  null. The two calls do not have the same outcome.
\<close>

theorem forecast_by_phrase_same_result_counterexample:
  "dateparser_parse null_geo_env [] = Inr None
   \<and> fst (get_weather_forecast_from_city_name null_geo_env ''Berlin'' ''Germany''
            (strftime null_geo_env (berlin_now null_geo_env)))
       = Inl (PyErr TypeError ''float() argument must be a string or a real number'')
   \<and> fst (get_weather_forecast_from_city_name_date_phrase null_geo_env ''Berlin'' ''Germany'' [])
       = Inr None
   \<and> get_weather_forecast_from_city_name_date_phrase null_geo_env ''Berlin'' ''Germany'' []
       \<noteq> get_weather_forecast_from_city_name null_geo_env ''Berlin'' ''Germany''
            (strftime null_geo_env (berlin_now null_geo_env))"
proof -
  have h: "dateparser_parse null_geo_env [] = Inr None"
    by (simp add: null_geo_env_def example_env_def)
  have d: "get_weather_forecast_from_city_name null_geo_env ''Berlin'' ''Germany''
         (strftime null_geo_env (berlin_now null_geo_env))
       = (Inl (PyErr TypeError ''float() argument must be a string or a real number''),
          [geo_request ''Berlin'' ''Germany''])"
    by (simp add: get_weather_forecast_from_city_name_def get_latitude_longitude_def
        http_get_def ebind_def try_except_def null_geo_env_def)
  have p: "get_weather_forecast_from_city_name_date_phrase null_geo_env ''Berlin'' ''Germany'' []
       = (Inr None, [geo_request ''Berlin'' ''Germany''])"
    using h d
    by (simp add: get_weather_forecast_from_city_name_date_phrase_def Let_def try_except_all_def)
  show ?thesis
    using h d p by simp
qed

subsection \<open>Document retrieval\<close>

text \<open>
  C9. The retrieval tool asks the vector store for the passages nearest to the query
  with \<open>k = 5\<close>, the default of the service (another \<open>top_k\<close> given to the service is
  passed on as it is), and returns the texts of the passages it gets, in their order,
  joined by a blank line (two newline characters).
\<close>

theorem retriever_tool_top_k_joined:
  "retriever_tool vs q =
     (case vs q 5 of
        Inl e \<Rightarrow> Inl e
      | Inr docs \<Rightarrow> Inr (str_join [CHR 0x0A, CHR 0x0A] (map page_content docs)))
   \<and> retriever_k get_retriever = 5
   \<and> query vs (QdrantRetrievalService (Some k)) q = vs q k
   \<and> (vs q 5 = Inr [d1, d2, d3]
      \<longrightarrow> retriever_tool vs q =
            Inr (page_content d1 @ [CHR 0x0A, CHR 0x0A] @ page_content d2
                 @ [CHR 0x0A, CHR 0x0A] @ page_content d3))"
  by (simp add: retriever_tool_def query_def get_retriever_def QdrantRetrievalService_def
      ebind_def split: sum.splits)

theorem retriever_tool_top_k_joined_witness:
  "example_store ''Berlin in November'' 5
     = Inr [\<lparr> page_content = ''Berlin is the capital of Germany.'' \<rparr>,
            \<lparr> page_content = ''Pack an umbrella in November.'' \<rparr>,
            \<lparr> page_content = ''The U-Bahn runs all night on weekends.'' \<rparr>]
   \<and> retriever_tool example_store ''Berlin in November''
     = Inr (''Berlin is the capital of Germany.'' @ [CHR 0x0A, CHR 0x0A]
            @ ''Pack an umbrella in November.'' @ [CHR 0x0A, CHR 0x0A]
            @ ''The U-Bahn runs all night on weekends.'')"
proof -
  have h: "example_store ''Berlin in November'' 5
     = Inr [\<lparr> page_content = ''Berlin is the capital of Germany.'' \<rparr>,
            \<lparr> page_content = ''Pack an umbrella in November.'' \<rparr>,
            \<lparr> page_content = ''The U-Bahn runs all night on weekends.'' \<rparr>]"
    by (simp add: example_store_def)
  show ?thesis
    using h retriever_tool_top_k_joined [where vs = example_store and q = "''Berlin in November''"
        and ?d1.0 = "\<lparr> page_content = ''Berlin is the capital of Germany.'' \<rparr>"
        and ?d2.0 = "\<lparr> page_content = ''Pack an umbrella in November.'' \<rparr>"
        and ?d3.0 = "\<lparr> page_content = ''The U-Bahn runs all night on weekends.'' \<rparr>"]
    by simp
qed


section \<open>Properties of the orchestration\<close>

subsection \<open>The reducer\<close>

lemma find_id_None: "(find_id i ms = None) = (Some i \<notin> set (map message_id ms))"
  by (induction ms) (auto split: option.splits)

lemma find_id_Some: "find_id i ms = Some k \<Longrightarrow> k < length ms \<and> message_id (ms ! k) = Some i"
  by (induction ms arbitrary: k) (auto split: option.splits if_splits)

lemma add_message_no_id: "message_id m = None \<Longrightarrow> add_message ms m = ms @ [m]"
  by (simp add: add_message_def)

lemma add_message_new_id:
  "message_id m = Some i \<Longrightarrow> Some i \<notin> set (map message_id ms) \<Longrightarrow> add_message ms m = ms @ [m]"
  using find_id_None [of i ms] by (simp add: add_message_def)

lemma add_message_cases:
  "add_message ms m = ms @ [m]
   \<or> (\<exists>i k. message_id m = Some i \<and> find_id i ms = Some k \<and> add_message ms m = ms[k := m])"
  by (auto simp add: add_message_def split: option.splits)

lemma add_message_not_empty: "add_message ms m \<noteq> []"
  using add_message_cases [of ms m] find_id_Some by fastforce

lemma add_messages_single: "add_messages ms [m] = add_message ms m"
  by (simp add: add_messages_def)

lemma add_messages_append: "add_messages ms (xs @ ys) = add_messages (add_messages ms xs) ys"
  by (simp add: add_messages_def)

lemma add_messages_no_ids:
  "\<forall>m \<in> set new. message_id m = None \<Longrightarrow> add_messages ms new = ms @ new"
proof (induction new arbitrary: ms)
  case Nil
  show ?case by (simp add: add_messages_def)
next
  case (Cons m new)
  have "add_messages ms (m # new) = add_messages (add_message ms m) new"
    by (simp add: add_messages_def)
  also have "\<dots> = add_messages (ms @ [m]) new"
    using Cons.prems by (simp add: add_message_no_id)
  also have "\<dots> = (ms @ [m]) @ new"
    using Cons.prems by (intro Cons.IH) simp
  finally show ?case by simp
qed





subsection \<open>Steps and runs of the graph\<close>

lemma run_graph_Suc:
  "nd \<noteq> END \<Longrightarrow> run_graph ag (Suc n) nd msgs =
     (case graph_step ag nd msgs of
        Inl e \<Rightarrow> (Raised e, [(nd, msgs)])
      | Inr (nd', msgs') \<Rightarrow>
          (let (r, trace) = run_graph ag n nd' msgs' in (r, (nd, msgs) # trace)))"
  by (cases nd) (auto simp del: graph_step.simps)

lemma run_graph_END: "fst (run_graph ag n END msgs) = OutOfSteps \<Longrightarrow> n = 0"
  by (cases n) simp_all

lemma run_graph_length: "length (snd (run_graph ag n nd msgs)) \<le> n"
proof (induction n arbitrary: nd msgs)
  case 0
  show ?case by simp
next
  case (Suc n)
  show ?case
  proof (cases "nd = END")
    case True
    then show ?thesis by simp
  next
    case False
    show ?thesis
    proof (cases "graph_step ag nd msgs")
      case (Inl e)
      then show ?thesis using False by (simp add: run_graph_Suc del: graph_step.simps)
    next
      case (Inr p)
      obtain nd' msgs' where p: "p = (nd', msgs')" by (cases p)
      show ?thesis
        using False Inr p Suc [of nd' msgs']
        by (simp add: run_graph_Suc split_beta del: graph_step.simps)
    qed
  qed
qed


lemma reasoner_next:
  "graph_step ag Reasoner msgs = Inr (nd', msgs') \<Longrightarrow> nd' = Tool \<or> nd' = END"
  by (auto simp add: ebind_def Let_def conditional_edges_def check_for_tools_def
      split: sum.splits option.splits message.splits if_splits)

lemma tool_next:
  "graph_step ag Tool msgs = Inr (nd', msgs') \<Longrightarrow> nd' = Reasoner"
  by (auto simp add: ebind_def split: sum.splits)

lemma counts_cons:
  "dispatch_cycles ((Reasoner, e) # tr) = dispatch_cycles tr"
  "dispatch_cycles ((Tool, e) # tr) = Suc (dispatch_cycles tr)"
  "reasoner_invocations ((Reasoner, e) # tr) = Suc (reasoner_invocations tr)"
  "reasoner_invocations ((Tool, e) # tr) = reasoner_invocations tr"
  "dispatch_cycles [] = 0" "reasoner_invocations [] = 0"
  by (simp_all add: dispatch_cycles_def reasoner_invocations_def)

lemma out_of_steps_counts:
  "fst (run_graph ag n nd msgs) = OutOfSteps \<Longrightarrow>
   length (snd (run_graph ag n nd msgs)) = n
   \<and> (nd = Tool \<longrightarrow> dispatch_cycles (snd (run_graph ag n nd msgs)) = (n + 1) div 2
                   \<and> reasoner_invocations (snd (run_graph ag n nd msgs)) = n div 2)
   \<and> (nd \<noteq> Tool \<longrightarrow> dispatch_cycles (snd (run_graph ag n nd msgs)) = n div 2
                   \<and> reasoner_invocations (snd (run_graph ag n nd msgs)) = (n + 1) div 2)"
proof (induction n arbitrary: nd msgs)
  case 0
  show ?case by (simp add: counts_cons)
next
  case (Suc n)
  show ?case
  proof (cases nd)
    case END
    then show ?thesis using Suc.prems by simp
  next
    case Reasoner
    show ?thesis
    proof (cases "graph_step ag Reasoner msgs")
      case (Inl e)
      then show ?thesis using Suc.prems Reasoner by (simp add: run_graph_Suc del: graph_step.simps)
    next
      case (Inr p)
      obtain nd' msgs' where p: "p = (nd', msgs')" by (cases p)
      have r: "run_graph ag (Suc n) Reasoner msgs =
          (fst (run_graph ag n nd' msgs'), (Reasoner, msgs) # snd (run_graph ag n nd' msgs'))"
        using Inr p by (simp add: run_graph_Suc split_beta del: graph_step.simps)
      have o: "fst (run_graph ag n nd' msgs') = OutOfSteps"
        using Suc.prems Reasoner r by simp
      note ih = Suc.IH [OF o]
      from reasoner_next Inr p have "nd' = Tool \<or> nd' = END" by blast
      then show ?thesis
      proof
        assume t: "nd' = Tool"
        show ?thesis
          unfolding Reasoner r using ih t by (simp add: counts_cons)
      next
        assume e: "nd' = END"
        with o have "n = 0" using run_graph_END by blast
        then show ?thesis
          unfolding Reasoner r using ih e by (simp add: counts_cons)
      qed
    qed
  next
    case Tool
    show ?thesis
    proof (cases "graph_step ag Tool msgs")
      case (Inl e)
      then show ?thesis using Suc.prems Tool by (simp add: run_graph_Suc del: graph_step.simps)
    next
      case (Inr p)
      obtain nd' msgs' where p: "p = (nd', msgs')" by (cases p)
      have r: "run_graph ag (Suc n) Tool msgs =
          (fst (run_graph ag n nd' msgs'), (Tool, msgs) # snd (run_graph ag n nd' msgs'))"
        using Inr p by (simp add: run_graph_Suc split_beta del: graph_step.simps)
      have o: "fst (run_graph ag n nd' msgs') = OutOfSteps"
        using Suc.prems Tool r by simp
      note ih = Suc.IH [OF o]
      from tool_next Inr p have t: "nd' = Reasoner" by blast
      show ?thesis
        unfolding Tool r using ih t by (simp add: counts_cons)
    qed
  qed
qed

lemma emap_tool_messages:
  "emap (\<lambda>tc. ebind (invoke_tool ag tc) (\<lambda>out. Inr (ToolMessage out (call_id tc) None))) tcs = Inr tms
   \<Longrightarrow> length tms = length tcs
       \<and> (\<forall>m \<in> set tms. message_id m = None \<and> (\<forall>c cs i. m \<noteq> AIMessage c cs i))"
proof (induction tcs arbitrary: tms)
  case Nil
  then show ?case by simp
next
  case (Cons tc tcs)
  from Cons.prems obtain out rest where
    o: "invoke_tool ag tc = Inr out"
    and r: "emap (\<lambda>tc. ebind (invoke_tool ag tc) (\<lambda>out. Inr (ToolMessage out (call_id tc) None))) tcs = Inr rest"
    and t: "tms = ToolMessage out (call_id tc) None # rest"
    by (auto simp add: ebind_def split: sum.splits)
  from Cons.IH [OF r] show ?case
    unfolding t by simp
qed

lemma emap_total:
  assumes "\<forall>x. \<exists>y. f x = Inr y"
  shows "\<exists>ys. emap f xs = Inr ys"
proof (induction xs)
  case Nil
  show ?case by simp
next
  case (Cons x xs)
  from assms obtain y where "f x = Inr y" by blast
  with Cons show ?case by (auto simp add: ebind_def)
qed

text \<open>the tool step from a state whose last message requests calls\<close>

lemma tool_step:
  assumes "msgs \<noteq> []" and "last msgs = AIMessage c tcs i" and "tcs \<noteq> []"
  shows "(\<exists>e. graph_step ag Tool msgs = Inl e)
       \<or> (\<exists>tms. graph_step ag Tool msgs = Inr (Reasoner, msgs @ tms) \<and> tms \<noteq> []
              \<and> message_id (last tms) = None \<and> (\<forall>c cs i. last tms \<noteq> AIMessage c cs i))"
proof (cases "emap (\<lambda>tc. ebind (invoke_tool ag tc) (\<lambda>out. Inr (ToolMessage out (call_id tc) None))) tcs")
  case (Inl e)
  then have "graph_step ag Tool msgs = Inl e"
    using assms by (simp add: tool_node_def py_last_def ebind_def)
  then show ?thesis by blast
next
  case (Inr tms)
  from emap_tool_messages [OF Inr] have l: "length tms = length tcs"
    and a: "\<forall>m \<in> set tms. message_id m = None \<and> (\<forall>c cs i. m \<noteq> AIMessage c cs i)" by blast+
  from l assms(3) have ne: "tms \<noteq> []" by auto
  have "add_messages msgs tms = msgs @ tms"
    using a by (intro add_messages_no_ids) blast
  then have "graph_step ag Tool msgs = Inr (Reasoner, msgs @ tms)"
    using assms Inr by (simp add: tool_node_def py_last_def ebind_def)
  moreover have "message_id (last tms) = None \<and> (\<forall>c cs i. last tms \<noteq> AIMessage c cs i)"
    using a ne last_in_set by blast
  ultimately show ?thesis using ne by blast
qed

lemma tool_step_returns:
  assumes "msgs \<noteq> []" and "last msgs = AIMessage c tcs i" and "tcs \<noteq> []"
    and "\<forall>tc. \<exists>out. invoke_tool ag tc = Inr out"
  shows "\<exists>tms. graph_step ag Tool msgs = Inr (Reasoner, msgs @ tms) \<and> tms \<noteq> []
              \<and> message_id (last tms) = None \<and> (\<forall>c cs i. last tms \<noteq> AIMessage c cs i)"
proof -
  have "\<forall>tc. \<exists>m. ebind (invoke_tool ag tc) (\<lambda>out. Inr (ToolMessage out (call_id tc) None)) = Inr m"
    using assms(4) by (metis ebind_def sum.simps(6))
  from emap_total [OF this, of tcs] obtain ms where
    "emap (\<lambda>tc. ebind (invoke_tool ag tc) (\<lambda>out. Inr (ToolMessage out (call_id tc) None))) tcs = Inr ms"
    by blast
  then have "\<not> (\<exists>e. graph_step ag Tool msgs = Inl e)"
    using assms by (simp add: tool_node_def py_last_def ebind_def)
  with tool_step [OF assms(1,2,3), of ag] show ?thesis by blast
qed

text \<open>the reasoner step with a reply that requests calls\<close>

lemma last_update_elsewhere:
  assumes "find_id x msgs = Some k" and "message_id (last msgs) = None" and "msgs \<noteq> []"
  shows "last (msgs[k := m]) = last msgs"
proof -
  from find_id_Some [OF assms(1)] have k: "k < length msgs" "message_id (msgs ! k) = Some x"
    by simp_all
  have "k \<noteq> length msgs - 1"
    using k(2) assms(2,3) by (auto simp add: last_conv_nth)
  then show ?thesis
    using assms(3) k(1) by (simp add: last_conv_nth)
qed

lemma reasoner_step_calls:
  assumes "llm ag (SystemMessage (Text SYSTEM_PROMPT) None # msgs) = Inr (c, tcs, i)" and "tcs \<noteq> []"
    and "msgs \<noteq> []" and "message_id (last msgs) = None" and "\<forall>c cs i. last msgs \<noteq> AIMessage c cs i"
  shows "(\<exists>e. graph_step ag Reasoner msgs = Inl e)
       \<or> graph_step ag Reasoner msgs = Inr (Tool, msgs @ [AIMessage c tcs i])"
proof -
  from add_message_cases [of msgs "AIMessage c tcs i"] show ?thesis
  proof
    assume a: "add_message msgs (AIMessage c tcs i) = msgs @ [AIMessage c tcs i]"
    have "graph_step ag Reasoner msgs = Inr (Tool, msgs @ [AIMessage c tcs i])"
      using assms(1,2) a
      by (simp add: reasoner_node_def add_messages_single check_for_tools_def py_last_def
          conditional_edges_def ebind_def)
    then show ?thesis by blast
  next
    assume "\<exists>x k. message_id (AIMessage c tcs i) = Some x \<and> find_id x msgs = Some k
        \<and> add_message msgs (AIMessage c tcs i) = msgs[k := AIMessage c tcs i]"
    then obtain x k where f: "find_id x msgs = Some k"
      and a: "add_message msgs (AIMessage c tcs i) = msgs[k := AIMessage c tcs i]" by blast
    have l: "last (msgs[k := AIMessage c tcs i]) = last msgs"
      using last_update_elsewhere [OF f assms(4,3)] .
    have "\<exists>e. check_for_tools (msgs[k := AIMessage c tcs i]) = Inl e"
      using l assms(3,5) by (cases "last msgs") (simp_all add: check_for_tools_def py_last_def ebind_def)
    then have "\<exists>e. graph_step ag Reasoner msgs = Inl e"
      using assms(1) a by (auto simp add: reasoner_node_def add_messages_single ebind_def)
    then show ?thesis by blast
  qed
qed

lemma always_tools_never_finishes:
  assumes calls: "\<forall>msgs. \<exists>c tcs i. llm ag msgs = Inr (c, tcs, i) \<and> tcs \<noteq> []"
  shows "(msgs \<noteq> [] \<and> message_id (last msgs) = None \<and> (\<forall>c cs i. last msgs \<noteq> AIMessage c cs i)
            \<longrightarrow> (\<forall>st. fst (run_graph ag n Reasoner msgs) \<noteq> Finished st))
       \<and> (msgs \<noteq> [] \<and> (\<exists>c tcs i. last msgs = AIMessage c tcs i \<and> tcs \<noteq> [])
            \<longrightarrow> (\<forall>st. fst (run_graph ag n Tool msgs) \<noteq> Finished st))"
proof (induction n arbitrary: msgs)
  case 0
  show ?case by simp
next
  case (Suc n)
  show ?case
  proof (intro conjI impI allI)
    fix st
    assume a: "msgs \<noteq> [] \<and> message_id (last msgs) = None \<and> (\<forall>c cs i. last msgs \<noteq> AIMessage c cs i)"
    from calls obtain c tcs i where
      l: "llm ag (SystemMessage (Text SYSTEM_PROMPT) None # msgs) = Inr (c, tcs, i)" and ne: "tcs \<noteq> []"
      by blast
    have "(\<exists>e. graph_step ag Reasoner msgs = Inl e)
       \<or> graph_step ag Reasoner msgs = Inr (Tool, msgs @ [AIMessage c tcs i])"
      using a by (intro reasoner_step_calls [OF l ne]) simp_all
    then show "fst (run_graph ag (Suc n) Reasoner msgs) \<noteq> Finished st"
    proof
      assume "\<exists>e. graph_step ag Reasoner msgs = Inl e"
      then show ?thesis by (auto simp add: run_graph_Suc simp del: graph_step.simps)
    next
      assume s: "graph_step ag Reasoner msgs = Inr (Tool, msgs @ [AIMessage c tcs i])"
      have "fst (run_graph ag n Tool (msgs @ [AIMessage c tcs i])) \<noteq> Finished st"
        using Suc [of "msgs @ [AIMessage c tcs i]"] ne by simp
      then show ?thesis
        using s by (simp add: run_graph_Suc split_beta del: graph_step.simps)
    qed
  next
    fix st
    assume a: "msgs \<noteq> [] \<and> (\<exists>c tcs i. last msgs = AIMessage c tcs i \<and> tcs \<noteq> [])"
    then obtain c tcs i where l: "last msgs = AIMessage c tcs i" and ne: "tcs \<noteq> []" and m: "msgs \<noteq> []"
      by blast
    from tool_step [OF m l ne, of ag]
    show "fst (run_graph ag (Suc n) Tool msgs) \<noteq> Finished st"
    proof
      assume "\<exists>e. graph_step ag Tool msgs = Inl e"
      then show ?thesis by (auto simp add: run_graph_Suc simp del: graph_step.simps)
    next
      assume "\<exists>tms. graph_step ag Tool msgs = Inr (Reasoner, msgs @ tms) \<and> tms \<noteq> []
              \<and> message_id (last tms) = None \<and> (\<forall>c cs i. last tms \<noteq> AIMessage c cs i)"
      then obtain tms where s: "graph_step ag Tool msgs = Inr (Reasoner, msgs @ tms)"
        and t: "tms \<noteq> []" "message_id (last tms) = None" "\<forall>c cs i. last tms \<noteq> AIMessage c cs i"
        by blast
      have "fst (run_graph ag n Reasoner (msgs @ tms)) \<noteq> Finished st"
        using Suc [of "msgs @ tms"] t by simp
      then show ?thesis
        using s by (simp add: run_graph_Suc split_beta del: graph_step.simps)
    qed
  qed
qed

lemma reasoner_step_new:
  assumes "llm ag (SystemMessage (Text SYSTEM_PROMPT) None # msgs) = Inr (c, tcs, i)"
    and "\<forall>x. i = Some x \<longrightarrow> Some x \<notin> set (map message_id msgs)"
  shows "graph_step ag Reasoner msgs
           = Inr (if tcs \<noteq> [] then Tool else END, msgs @ [AIMessage c tcs i])"
proof -
  have a: "add_message msgs (AIMessage c tcs i) = msgs @ [AIMessage c tcs i]"
  proof (cases i)
    case None
    then show ?thesis by (simp add: add_message_no_id)
  next
    case (Some x)
    then show ?thesis using assms(2) by (intro add_message_new_id [of _ x]) simp_all
  qed
  show ?thesis
    using assms(1) a
    by (simp add: reasoner_node_def add_messages_single check_for_tools_def py_last_def
        conditional_edges_def ebind_def)
qed

lemma new_replies_run_out_of_steps:
  assumes calls: "\<forall>msgs. \<exists>c tcs i. llm ag msgs = Inr (c, tcs, i) \<and> tcs \<noteq> []"
    and tools: "\<forall>tc. \<exists>out. invoke_tool ag tc = Inr out"
    and new: "\<forall>msgs c tcs x. llm ag msgs = Inr (c, tcs, Some x) \<longrightarrow> Some x \<notin> set (map message_id msgs)"
  shows "fst (run_graph ag n Reasoner msgs) = OutOfSteps
       \<and> (msgs \<noteq> [] \<and> (\<exists>c tcs i. last msgs = AIMessage c tcs i \<and> tcs \<noteq> [])
            \<longrightarrow> fst (run_graph ag n Tool msgs) = OutOfSteps)"
proof (induction n arbitrary: msgs)
  case 0
  show ?case by simp
next
  case (Suc n)
  show ?case
  proof (intro conjI impI)
    from calls obtain c tcs i where
      l: "llm ag (SystemMessage (Text SYSTEM_PROMPT) None # msgs) = Inr (c, tcs, i)" and ne: "tcs \<noteq> []"
      by blast
    have "\<forall>x. i = Some x \<longrightarrow> Some x \<notin> set (map message_id msgs)"
      using new l by fastforce
    from reasoner_step_new [OF l this] ne
    have s: "graph_step ag Reasoner msgs = Inr (Tool, msgs @ [AIMessage c tcs i])" by simp
    have "fst (run_graph ag n Tool (msgs @ [AIMessage c tcs i])) = OutOfSteps"
      using Suc [of "msgs @ [AIMessage c tcs i]"] ne by simp
    then show "fst (run_graph ag (Suc n) Reasoner msgs) = OutOfSteps"
      using s by (simp add: run_graph_Suc split_beta del: graph_step.simps)
  next
    assume "msgs \<noteq> [] \<and> (\<exists>c tcs i. last msgs = AIMessage c tcs i \<and> tcs \<noteq> [])"
    then obtain c tcs i where l: "last msgs = AIMessage c tcs i" and ne: "tcs \<noteq> []" and m: "msgs \<noteq> []"
      by blast
    from tool_step_returns [OF m l ne tools] obtain tms where
      s: "graph_step ag Tool msgs = Inr (Reasoner, msgs @ tms)" by blast
    have "fst (run_graph ag n Reasoner (msgs @ tms)) = OutOfSteps"
      using Suc [of "msgs @ tms"] by simp
    then show "fst (run_graph ag (Suc n) Tool msgs) = OutOfSteps"
      using s by (simp add: run_graph_Suc split_beta del: graph_step.simps)
  qed
qed

lemma initial_state:
  "add_messages [] (history @ [HumanMessage (Text q) None])
     = add_messages [] history @ [HumanMessage (Text q) None]"
  by (simp add: add_messages_append add_messages_single add_message_no_id)

lemma pregel_loop_run:
  "1 \<le> N \<Longrightarrow> pregel_loop ag N input = run_graph ag N Reasoner (add_messages [] input)"
  by (simp add: pregel_loop_def entry_point_def)

lemma invoke_trace: "snd (invoke ag N input) = snd (pregel_loop ag N input)"
  by (simp add: invoke_def split: prod.splits run_end.splits)

lemma invoke_result:
  "fst (invoke ag N input) =
     (case fst (pregel_loop ag N input) of
        Finished st \<Rightarrow> Inr st
      | OutOfSteps \<Rightarrow> Inl (PyErr GraphRecursionError (error_text ag GraphRecursionError N))
      | Raised e \<Rightarrow> Inl e)"
  by (simp add: invoke_def split: prod.splits run_end.splits)

lemma answer_query_trace:
  "snd (answer_query ag q (Some history))
     = snd (pregel_loop ag recursion_limit (history @ [HumanMessage (Text q) None]))"
  by (simp add: answer_query_def split_beta Let_def invoke_trace)

lemma answer_query_aborted:
  "fst (invoke ag recursion_limit (history @ [HumanMessage (Text q) None])) = Inl e
   \<Longrightarrow> fst (answer_query ag q (Some history)) = Inl e"
  by (simp add: answer_query_def split_beta Let_def ebind_def)

lemma looping_agent_out_of_steps:
  "fst (run_graph looping_agent n Reasoner msgs) = OutOfSteps"
proof -
  have calls: "\<forall>msgs. \<exists>c tcs i. llm looping_agent msgs = Inr (c, tcs, i) \<and> tcs \<noteq> []"
    by (simp add: looping_agent_def example_agent_def)
  have tools: "\<forall>tc. \<exists>out. invoke_tool looping_agent tc = Inr out"
    by (simp add: looping_agent_def example_agent_def)
  have new: "\<forall>msgs c tcs x. llm looping_agent msgs = Inr (c, tcs, Some x)
      \<longrightarrow> Some x \<notin> set (map message_id msgs)"
    by (simp add: looping_agent_def example_agent_def)
  from new_replies_run_out_of_steps [OF calls tools new] show ?thesis by blast
qed

lemma same_id_agent_run:
  "run_graph same_id_agent (Suc (Suc (Suc n))) Reasoner [HumanMessage (Text ''Weather?'') None]
     = (Raised (PyErr AttributeError (no_attribute ''ToolMessage'' ''tool_calls'')),
        [(Reasoner, [HumanMessage (Text ''Weather?'') None]),
         (Tool, [HumanMessage (Text ''Weather?'') None,
                 AIMessage (Text []) [example_call] (Some ''run-1'')]),
         (Reasoner, [HumanMessage (Text ''Weather?'') None,
                     AIMessage (Text []) [example_call] (Some ''run-1''),
                     ToolMessage (Text ''null'') ''call_1'' None])])"
  by (simp add: same_id_agent_def example_agent_def reasoner_node_def tool_node_def
      add_messages_def add_message_def check_for_tools_def py_last_def conditional_edges_def
      ebind_def example_call_def)

lemma reasoner_step_appends:
  assumes "llm ag (SystemMessage (Text SYSTEM_PROMPT) None # msgs) = Inr (c, tcs, i)"
    and "i = None \<or> i \<notin> set (map message_id msgs)"
  shows "graph_step ag Reasoner msgs
           = Inr (if tcs \<noteq> [] then Tool else END, msgs @ [AIMessage c tcs i])"
  using assms(2) by (intro reasoner_step_new [OF assms(1)]) auto

lemma reasoner_step_last:
  assumes "llm ag (SystemMessage (Text SYSTEM_PROMPT) None # msgs) = Inr (c, tcs, i)"
    and "last (add_messages msgs [AIMessage c tcs i]) = AIMessage c tcs i"
  shows "graph_step ag Reasoner msgs
           = Inr (if tcs \<noteq> [] then Tool else END, add_messages msgs [AIMessage c tcs i])"
  using assms add_message_not_empty [of msgs "AIMessage c tcs i"]
  by (simp add: reasoner_node_def add_messages_single check_for_tools_def py_last_def
      conditional_edges_def ebind_def)

lemma run_graph_single_cycle:
  assumes "llm ag (SystemMessage (Text SYSTEM_PROMPT) None # msgs) = Inr (c, [], i)"
    and "i = None \<or> i \<notin> set (map message_id msgs)"
  shows "run_graph ag (Suc (Suc n)) Reasoner msgs
           = (Finished (msgs @ [AIMessage c [] i]), [(Reasoner, msgs)])"
    and "run_graph ag (Suc 0) Reasoner msgs = (OutOfSteps, [(Reasoner, msgs)])"
  using reasoner_step_appends [OF assms]
  by (simp_all add: run_graph_Suc del: graph_step.simps)

lemma invoke_single_cycle:
  assumes "llm ag (SystemMessage (Text SYSTEM_PROMPT) None # add_messages [] input) = Inr (c, [], i)"
    and "i = None \<or> i \<notin> set (map message_id (add_messages [] input))"
  shows "invoke ag (Suc (Suc n)) input
           = (Inr (add_messages [] input @ [AIMessage c [] i]), [(Reasoner, add_messages [] input)])"
    and "invoke ag 1 input
           = (Inl (PyErr GraphRecursionError (error_text ag GraphRecursionError 1)),
              [(Reasoner, add_messages [] input)])"
  using run_graph_single_cycle [OF assms]
  by (simp_all add: invoke_def pregel_loop_def entry_point_def del: run_graph.simps)

lemma answer_query_single_cycle:
  assumes "llm ag (SystemMessage (Text SYSTEM_PROMPT) None
                     # add_messages [] (history @ [HumanMessage (Text q) None])) = Inr (c, [], i)"
    and "i = None \<or> i \<notin> set (map message_id (add_messages [] (history @ [HumanMessage (Text q) None])))"
  shows "answer_query ag q (Some history)
           = (postprocess c, [(Reasoner, add_messages [] (history @ [HumanMessage (Text q) None]))])"
proof -
  have "recursion_limit = Suc (Suc 48)"
    by (simp add: recursion_limit_def)
  then show ?thesis
    using invoke_single_cycle(1) [OF assms, of 48]
    by (simp add: answer_query_def ebind_def py_last_def Let_def)
qed












lemma postprocess_typed_parts:
  "postprocess (Parts (map (\<lambda>(t, s). JObj [(''type'', JStr t), (''text'', JStr s)]) typed_parts))
     = Inr (concat (map snd (filter (\<lambda>(t, s). t = ''text'') typed_parts)))"
proof -
  have "join_parts (List.map_filter text_part
            (map (\<lambda>(t, s). JObj [(''type'', JStr t), (''text'', JStr s)]) typed_parts))
      = Inr (concat (map snd (filter (\<lambda>(t, s). t = ''text'') typed_parts)))"
  proof (induction typed_parts)
    case Nil
    show ?case by simp
  next
    case (Cons p ps)
    obtain t s where p: "p = (t, s)" by (cases p)
    show ?case
      using Cons unfolding p by (simp add: ebind_def)
  qed
  then show ?thesis by simp
qed

subsection \<open>Routing after the reasoner\<close>

text \<open>
  C6. A state whose last message is an assistant message without tool calls is routed
  to the end of the graph, one with one or more tool calls to the tool node. So when
  the reply of the model carries no tool call and is the last message of the state
  (it is put at the end unless it carries the id of an earlier message), the step from
  the reasoner goes to the end; under every recursion limit of 2 or more the run is
  over after this one run of a node and yields the state with the reply, and
  \<^verbatim>\<open>answer_query\<close> returns the content of that reply (the string itself when the content
  is plain text). Under the limit 1 the runtime is out of steps after the reasoner has
  run and raises the recursion error. When the reply carries one or more tool calls,
  the step goes to the tool node.
\<close>

theorem reasoner_routes_done_or_dispatch:
  "check_for_tools (msgs @ [AIMessage c [] i]) = Inr ''end''
   \<and> conditional_edges ''end'' = Some END
   \<and> (tcs \<noteq> [] \<longrightarrow> check_for_tools (msgs @ [AIMessage c tcs i]) = Inr ''tools'')
   \<and> conditional_edges ''tools'' = Some Tool
   \<and> (llm ag (SystemMessage (Text SYSTEM_PROMPT) None # msgs) = Inr (c, [], i)
        \<and> (i = None \<or> i \<notin> set (map message_id msgs))
      \<longrightarrow> graph_step ag Reasoner msgs = Inr (END, msgs @ [AIMessage c [] i]))
   \<and> (llm ag (SystemMessage (Text SYSTEM_PROMPT) None # msgs) = Inr (c, tcs, i) \<and> tcs \<noteq> []
        \<and> (i = None \<or> i \<notin> set (map message_id msgs))
      \<longrightarrow> graph_step ag Reasoner msgs = Inr (Tool, msgs @ [AIMessage c tcs i]))
   \<and> (llm ag (SystemMessage (Text SYSTEM_PROMPT) None # msgs) = Inr (c, tcs, i)
        \<and> last (add_messages msgs [AIMessage c tcs i]) = AIMessage c tcs i
      \<longrightarrow> graph_step ag Reasoner msgs
            = Inr (if tcs \<noteq> [] then Tool else END, add_messages msgs [AIMessage c tcs i]))
   \<and> (llm ag (SystemMessage (Text SYSTEM_PROMPT) None
                 # add_messages [] (history @ [HumanMessage (Text q) None])) = Inr (a, [], j)
        \<and> (j = None \<or> j \<notin> set (map message_id (add_messages [] (history @ [HumanMessage (Text q) None]))))
      \<longrightarrow> invoke ag (Suc (Suc n)) (history @ [HumanMessage (Text q) None])
            = (Inr (add_messages [] (history @ [HumanMessage (Text q) None]) @ [AIMessage a [] j]),
               [(Reasoner, add_messages [] (history @ [HumanMessage (Text q) None]))])
        \<and> invoke ag 1 (history @ [HumanMessage (Text q) None])
            = (Inl (PyErr GraphRecursionError (error_text ag GraphRecursionError 1)),
               [(Reasoner, add_messages [] (history @ [HumanMessage (Text q) None]))])
        \<and> answer_query ag q (Some history)
            = (postprocess a, [(Reasoner, add_messages [] (history @ [HumanMessage (Text q) None]))]))
   \<and> (llm ag (SystemMessage (Text SYSTEM_PROMPT) None
                 # add_messages [] (history @ [HumanMessage (Text q) None])) = Inr (Text s, [], j)
        \<and> (j = None \<or> j \<notin> set (map message_id (add_messages [] (history @ [HumanMessage (Text q) None]))))
      \<longrightarrow> fst (answer_query ag q (Some history)) = Inr s)"
proof -
  let ?state = "add_messages [] (history @ [HumanMessage (Text q) None])"
  have routes: "check_for_tools (msgs @ [AIMessage c [] i]) = Inr ''end''"
      "conditional_edges ''end'' = Some END"
      "tcs \<noteq> [] \<longrightarrow> check_for_tools (msgs @ [AIMessage c tcs i]) = Inr ''tools''"
      "conditional_edges ''tools'' = Some Tool"
    by (simp_all add: check_for_tools_def py_last_def ebind_def conditional_edges_def)
  have step_end: "llm ag (SystemMessage (Text SYSTEM_PROMPT) None # msgs) = Inr (c, [], i)
        \<and> (i = None \<or> i \<notin> set (map message_id msgs))
      \<longrightarrow> graph_step ag Reasoner msgs = Inr (END, msgs @ [AIMessage c [] i])"
    using reasoner_step_appends [of ag msgs c "[]" i] by (simp del: graph_step.simps)
  have step_tools: "llm ag (SystemMessage (Text SYSTEM_PROMPT) None # msgs) = Inr (c, tcs, i) \<and> tcs \<noteq> []
        \<and> (i = None \<or> i \<notin> set (map message_id msgs))
      \<longrightarrow> graph_step ag Reasoner msgs = Inr (Tool, msgs @ [AIMessage c tcs i])"
    using reasoner_step_appends [of ag msgs c tcs i] by (simp del: graph_step.simps)
  have step_last: "llm ag (SystemMessage (Text SYSTEM_PROMPT) None # msgs) = Inr (c, tcs, i)
        \<and> last (add_messages msgs [AIMessage c tcs i]) = AIMessage c tcs i
      \<longrightarrow> graph_step ag Reasoner msgs
            = Inr (if tcs \<noteq> [] then Tool else END, add_messages msgs [AIMessage c tcs i])"
    using reasoner_step_last [of ag msgs c tcs i] by (simp del: graph_step.simps)
  have run: "llm ag (SystemMessage (Text SYSTEM_PROMPT) None # ?state) = Inr (a, [], j)
        \<and> (j = None \<or> j \<notin> set (map message_id ?state))
      \<longrightarrow> invoke ag (Suc (Suc n)) (history @ [HumanMessage (Text q) None])
            = (Inr (?state @ [AIMessage a [] j]), [(Reasoner, ?state)])
        \<and> invoke ag 1 (history @ [HumanMessage (Text q) None])
            = (Inl (PyErr GraphRecursionError (error_text ag GraphRecursionError 1)),
               [(Reasoner, ?state)])
        \<and> answer_query ag q (Some history) = (postprocess a, [(Reasoner, ?state)])"
    using invoke_single_cycle(1) [of ag "history @ [HumanMessage (Text q) None]" a j n]
      invoke_single_cycle(2) [of ag "history @ [HumanMessage (Text q) None]" a j]
      answer_query_single_cycle [of ag history q a j]
    by blast
  have plain: "llm ag (SystemMessage (Text SYSTEM_PROMPT) None # ?state) = Inr (Text s, [], j)
        \<and> (j = None \<or> j \<notin> set (map message_id ?state))
      \<longrightarrow> fst (answer_query ag q (Some history)) = Inr s"
    using answer_query_single_cycle [of ag history q "Text s" j] by simp
  show ?thesis
    by (intro conjI) (rule routes step_end step_tools step_last run plain)+
qed

theorem reasoner_routes_done_or_dispatch_witness:
  "llm (example_agent (Inr (Text ''It is sunny.'', [], None)))
       (SystemMessage (Text SYSTEM_PROMPT) None # [HumanMessage (Text ''Weather?'') None])
     = Inr (Text ''It is sunny.'', [], None)
   \<and> graph_step (example_agent (Inr (Text ''It is sunny.'', [], None))) Reasoner
        [HumanMessage (Text ''Weather?'') None]
     = Inr (END, [HumanMessage (Text ''Weather?'') None, AIMessage (Text ''It is sunny.'') [] None])
   \<and> invoke (example_agent (Inr (Text ''It is sunny.'', [], None))) 2
        [HumanMessage (Text ''Weather?'') None]
     = (Inr [HumanMessage (Text ''Weather?'') None, AIMessage (Text ''It is sunny.'') [] None],
        [(Reasoner, [HumanMessage (Text ''Weather?'') None])])
   \<and> answer_query (example_agent (Inr (Text ''It is sunny.'', [], None))) ''Weather?'' (Some [])
     = (Inr ''It is sunny.'', [(Reasoner, [HumanMessage (Text ''Weather?'') None])])
   \<and> fst (answer_query (example_agent (Inr (Text ''It is sunny.'', [], None))) ''Weather?'' (Some []))
     = Inr ''It is sunny.''
   \<and> llm looping_agent (SystemMessage (Text SYSTEM_PROMPT) None # [HumanMessage (Text ''Weather?'') None])
     = Inr (Text [], [example_call], None)
   \<and> [example_call] \<noteq> []
   \<and> graph_step looping_agent Reasoner [HumanMessage (Text ''Weather?'') None]
     = Inr (Tool, [HumanMessage (Text ''Weather?'') None, AIMessage (Text []) [example_call] None])
   \<and> check_for_tools [HumanMessage (Text ''Weather?'') None, AIMessage (Text []) [example_call] None]
     = Inr ''tools''
   \<and> last (add_messages [AIMessage (Text ''Hello!'') [] (Some ''run-1'')]
              [AIMessage (Text []) [example_call] (Some ''run-1'')])
     = AIMessage (Text []) [example_call] (Some ''run-1'')
   \<and> graph_step same_id_agent Reasoner [AIMessage (Text ''Hello!'') [] (Some ''run-1'')]
     = Inr (Tool, [AIMessage (Text []) [example_call] (Some ''run-1'')])"
proof -
  let ?ag = "example_agent (Inr (Text ''It is sunny.'', [], None))"
  let ?q = "[HumanMessage (Text ''Weather?'') None] :: int message list"
  let ?old = "[AIMessage (Text ''Hello!'') [] (Some ''run-1'')] :: int message list"
  have s: "add_messages [] ([] @ ?q) = ?q"
    by (simp add: add_messages_def add_message_def)
  have h1: "llm ?ag (SystemMessage (Text SYSTEM_PROMPT) None # ?q) = Inr (Text ''It is sunny.'', [], None)"
    by (simp add: example_agent_def)
  have h2: "llm looping_agent (SystemMessage (Text SYSTEM_PROMPT) None # ?q)
      = Inr (Text [], [example_call], None)"
    by (simp add: example_agent_def looping_agent_def)
  have h3: "llm same_id_agent (SystemMessage (Text SYSTEM_PROMPT) None # ?old)
      = Inr (Text [], [example_call], Some ''run-1'')"
    by (simp add: example_agent_def same_id_agent_def)
  have h4: "last (add_messages ?old [AIMessage (Text []) [example_call] (Some ''run-1'')])
      = AIMessage (Text []) [example_call] (Some ''run-1'')"
    by (simp add: add_messages_def add_message_def)
  have ne: "[example_call] \<noteq> []"
    by simp
  note t1 = reasoner_routes_done_or_dispatch [where ag = ?ag and msgs = ?q
      and c = "Text ''It is sunny.''" and i = None and history = "[]" and q = "''Weather?''"
      and a = "Text ''It is sunny.''" and s = "''It is sunny.''" and j = None and n = 0,
      unfolded s]
  note t2 = reasoner_routes_done_or_dispatch [where ag = looping_agent and msgs = ?q
      and c = "Text []" and tcs = "[example_call]" and i = None]
  note t3 = reasoner_routes_done_or_dispatch [where ag = same_id_agent and msgs = ?old
      and c = "Text []" and tcs = "[example_call]" and i = "Some ''run-1''"]
  have a: "graph_step ?ag Reasoner ?q
     = Inr (END, [HumanMessage (Text ''Weather?'') None, AIMessage (Text ''It is sunny.'') [] None])"
    using t1 [THEN conjunct2, THEN conjunct2, THEN conjunct2, THEN conjunct2, THEN conjunct1] h1
    by (simp del: graph_step.simps)
  have run: "invoke ?ag (Suc (Suc 0)) ?q
       = (Inr (?q @ [AIMessage (Text ''It is sunny.'') [] None]), [(Reasoner, ?q)])
     \<and> invoke ?ag 1 ?q
       = (Inl (PyErr GraphRecursionError (error_text ?ag GraphRecursionError 1)), [(Reasoner, ?q)])
     \<and> answer_query ?ag ''Weather?'' (Some []) = (postprocess (Text ''It is sunny.''), [(Reasoner, ?q)])"
    using t1 [THEN conjunct2, THEN conjunct2, THEN conjunct2, THEN conjunct2, THEN conjunct2,
        THEN conjunct2, THEN conjunct2, THEN conjunct1] h1
    by simp
  have b: "invoke ?ag 2 ?q
     = (Inr [HumanMessage (Text ''Weather?'') None, AIMessage (Text ''It is sunny.'') [] None],
        [(Reasoner, ?q)])"
    using run [THEN conjunct1] by (simp add: numeral_2_eq_2)
  have c: "answer_query ?ag ''Weather?'' (Some []) = (Inr ''It is sunny.'', [(Reasoner, ?q)])"
    using run [THEN conjunct2, THEN conjunct2] by simp
  have d: "fst (answer_query ?ag ''Weather?'' (Some [])) = Inr ''It is sunny.''"
    using t1 [THEN conjunct2, THEN conjunct2, THEN conjunct2, THEN conjunct2, THEN conjunct2,
        THEN conjunct2, THEN conjunct2, THEN conjunct2] h1
    by simp
  have e: "graph_step looping_agent Reasoner ?q
     = Inr (Tool, [HumanMessage (Text ''Weather?'') None, AIMessage (Text []) [example_call] None])"
    using t2 [THEN conjunct2, THEN conjunct2, THEN conjunct2, THEN conjunct2, THEN conjunct2,
        THEN conjunct1] h2
    by (simp del: graph_step.simps)
  have f: "check_for_tools [HumanMessage (Text ''Weather?'') None, AIMessage (Text []) [example_call] None]
     = Inr ''tools''"
    using t2 [THEN conjunct2, THEN conjunct2, THEN conjunct1] by simp
  have g: "graph_step same_id_agent Reasoner ?old
     = Inr (Tool, [AIMessage (Text []) [example_call] (Some ''run-1'')])"
    using t3 [THEN conjunct2, THEN conjunct2, THEN conjunct2, THEN conjunct2, THEN conjunct2,
        THEN conjunct2, THEN conjunct1] h3 h4
    by (simp add: add_messages_def add_message_def del: graph_step.simps)
  show ?thesis
    by (intro conjI) (rule h1 a b c d h2 ne e f h4 g)+
qed

subsection \<open>The final answer\<close>

text \<open>
  C5. When the content of the last message is a list of parts, the answer is the
  concatenation, in the order of the list, of the texts of the parts whose \<open>type\<close> is
  \<open>text\<close>; every other part is dropped. Part by part: a text part with the string \<open>s\<close>
  puts \<open>s\<close> in front of the answer for the rest, a part of another type leaves the
  answer for the rest as it is. The list of a text part \<open>A\<close>, an image part and a text
  part \<open>B\<close> gives \<open>AB\<close>.
\<close>

theorem final_answer_text_parts:
  "postprocess (Parts (map (\<lambda>(t, s). JObj [(''type'', JStr t), (''text'', JStr s)]) typed_parts))
     = Inr (concat (map snd (filter (\<lambda>(t, s). t = ''text'') typed_parts)))
   \<and> postprocess (Parts []) = Inr []
   \<and> (map_of part ''type'' = Some (JStr ''text'') \<and> map_of part ''text'' = Some (JStr s)
      \<longrightarrow> postprocess (Parts (JObj part # parts))
            = ebind (postprocess (Parts parts)) (\<lambda>rest. Inr (s @ rest)))
   \<and> (map_of other ''type'' \<noteq> Some (JStr ''text'')
      \<longrightarrow> postprocess (Parts (JObj other # parts)) = postprocess (Parts parts))
   \<and> postprocess (Parts [JObj [(''type'', JStr ''text''), (''text'', JStr ''A'')],
                         JObj [(''type'', JStr ''image''), (''url'', JStr ''...'')],
                         JObj [(''type'', JStr ''text''), (''text'', JStr ''B'')]])
     = Inr ''AB''"
  using postprocess_typed_parts [of typed_parts]
  by (simp add: ebind_def)

theorem final_answer_text_parts_witness:
  "map_of ([(''type'', JStr ''text''), (''text'', JStr ''A'')] :: int pydict) ''type'' = Some (JStr ''text'')
   \<and> map_of ([(''type'', JStr ''text''), (''text'', JStr ''A'')] :: int pydict) ''text'' = Some (JStr ''A'')
   \<and> map_of ([(''type'', JStr ''image''), (''url'', JStr ''...'')] :: int pydict) ''type'' \<noteq> Some (JStr ''text'')
   \<and> postprocess (Parts [JObj ([(''type'', JStr ''text''), (''text'', JStr ''A'')] :: int pydict),
                         JObj ([(''type'', JStr ''image''), (''url'', JStr ''...'')] :: int pydict)])
     = ebind (postprocess (Parts [JObj ([(''type'', JStr ''image''), (''url'', JStr ''...'')] :: int pydict)]))
         (\<lambda>rest. Inr (''A'' @ rest))
   \<and> postprocess (Parts [JObj ([(''type'', JStr ''image''), (''url'', JStr ''...'')] :: int pydict),
                         JObj ([(''type'', JStr ''text''), (''text'', JStr ''B'')] :: int pydict)])
     = postprocess (Parts [JObj ([(''type'', JStr ''text''), (''text'', JStr ''B'')] :: int pydict)])"
proof -
  have h1: "map_of ([(''type'', JStr ''text''), (''text'', JStr ''A'')] :: int pydict) ''type'' = Some (JStr ''text'')"
    and h2: "map_of ([(''type'', JStr ''text''), (''text'', JStr ''A'')] :: int pydict) ''text'' = Some (JStr ''A'')"
    and h3: "map_of ([(''type'', JStr ''image''), (''url'', JStr ''...'')] :: int pydict) ''type'' \<noteq> Some (JStr ''text'')"
    by simp_all
  note t1 = final_answer_text_parts [where part = "([(''type'', JStr ''text''), (''text'', JStr ''A'')] :: int pydict)"
      and s = "''A''" and parts = "[JObj ([(''type'', JStr ''image''), (''url'', JStr ''...'')] :: int pydict)]"]
  note t2 = final_answer_text_parts [where other = "([(''type'', JStr ''image''), (''url'', JStr ''...'')] :: int pydict)"
      and parts = "[JObj ([(''type'', JStr ''text''), (''text'', JStr ''B'')] :: int pydict)]"]
  have a: "postprocess (Parts [JObj ([(''type'', JStr ''text''), (''text'', JStr ''A'')] :: int pydict),
                         JObj ([(''type'', JStr ''image''), (''url'', JStr ''...'')] :: int pydict)])
     = ebind (postprocess (Parts [JObj ([(''type'', JStr ''image''), (''url'', JStr ''...'')] :: int pydict)]))
         (\<lambda>rest. Inr (''A'' @ rest))"
    by (rule mp [OF t1 [THEN conjunct2, THEN conjunct2, THEN conjunct1] conjI [OF h1 h2]])
  have b: "postprocess (Parts [JObj ([(''type'', JStr ''image''), (''url'', JStr ''...'')] :: int pydict),
                         JObj ([(''type'', JStr ''text''), (''text'', JStr ''B'')] :: int pydict)])
     = postprocess (Parts [JObj ([(''type'', JStr ''text''), (''text'', JStr ''B'')] :: int pydict)])"
    by (rule mp [OF t2 [THEN conjunct2, THEN conjunct2, THEN conjunct2, THEN conjunct1] h3])
  show ?thesis
    by (intro conjI) (rule h1 h2 h3 a b)+
qed

subsection \<open>The conversation in the state of the graph\<close>




subsection \<open>The recursion limit bounds the loop\<close>

text \<open>
  C1. For every recursion limit \<open>N\<close> of 1 or more, with a model that requests at least
  one tool call on every invocation, the run is aborted: \<^verbatim>\<open>app.invoke\<close> raises, and so
  does \<^verbatim>\<open>answer_query\<close>, after no more than \<open>N\<close> runs of a node. When the run ends
  because it is out of steps, the exception is the recursion error and exactly \<open>N\<close>
  nodes have run: the reasoner and the tool node take turns, the reasoner first, so
  the reasoner is invoked \<open>(N + 1) div 2\<close> times and the tool node runs \<open>N div 2\<close>
  times. This is how the run ends whenever the tools return and no reply of the model
  carries the id of a message of the conversation it answers. With the limit that
  \<^verbatim>\<open>answer_query\<close> sets, 50, these are 25 invocations of the reasoner and 25 runs of
  the tool node.
\<close>

theorem recursion_limit_ends_tool_loop:
  assumes "1 \<le> N"
    and "\<forall>msgs. \<exists>c tcs i. llm ag msgs = Inr (c, tcs, i) \<and> tcs \<noteq> []"
  shows "(\<exists>e. fst (invoke ag N (history @ [HumanMessage (Text q) None])) = Inl e)
       \<and> length (snd (invoke ag N (history @ [HumanMessage (Text q) None]))) \<le> N
       \<and> (fst (pregel_loop ag N (history @ [HumanMessage (Text q) None])) = OutOfSteps
          \<longrightarrow> fst (invoke ag N (history @ [HumanMessage (Text q) None]))
                = Inl (PyErr GraphRecursionError (error_text ag GraphRecursionError N))
            \<and> length (snd (invoke ag N (history @ [HumanMessage (Text q) None]))) = N
            \<and> reasoner_invocations (snd (invoke ag N (history @ [HumanMessage (Text q) None])))
                = (N + 1) div 2
            \<and> dispatch_cycles (snd (invoke ag N (history @ [HumanMessage (Text q) None])))
                = N div 2)
       \<and> ((\<forall>tc. \<exists>out. invoke_tool ag tc = Inr out)
            \<and> (\<forall>msgs c tcs x. llm ag msgs = Inr (c, tcs, Some x)
                  \<longrightarrow> Some x \<notin> set (map message_id msgs))
          \<longrightarrow> fst (pregel_loop ag N (history @ [HumanMessage (Text q) None])) = OutOfSteps)
       \<and> (\<exists>e. fst (answer_query ag q (Some history)) = Inl e)
       \<and> (fst (pregel_loop ag recursion_limit (history @ [HumanMessage (Text q) None])) = OutOfSteps
          \<longrightarrow> length (snd (answer_query ag q (Some history))) = 50
            \<and> reasoner_invocations (snd (answer_query ag q (Some history))) = 25
            \<and> dispatch_cycles (snd (answer_query ag q (Some history))) = 25)"
proof -
  let ?input = "history @ [HumanMessage (Text q) None]"
  let ?state = "add_messages [] history @ [HumanMessage (Text q) None]"
  have start: "?state \<noteq> [] \<and> message_id (last ?state) = None
      \<and> (\<forall>c cs i. last ?state \<noteq> AIMessage c cs i)"
    by simp
  have loop: "\<And>M. 1 \<le> M \<Longrightarrow> pregel_loop ag M ?input = run_graph ag M Reasoner ?state"
    by (simp add: pregel_loop_run initial_state)
  have never: "\<And>M st. 1 \<le> M \<Longrightarrow> fst (pregel_loop ag M ?input) \<noteq> Finished st"
    using always_tools_never_finishes [OF assms(2), THEN conjunct1, rule_format, OF start]
    by (simp add: loop)
  have aborted: "\<And>M. 1 \<le> M \<Longrightarrow> \<exists>e. fst (invoke ag M ?input) = Inl e"
  proof -
    fix M :: nat assume M: "1 \<le> M"
    show "\<exists>e. fst (invoke ag M ?input) = Inl e"
    proof (cases "fst (pregel_loop ag M ?input)")
      case (Finished st)
      with never [OF M, of st] show ?thesis by simp
    next
      case OutOfSteps
      then show ?thesis by (simp add: invoke_result)
    next
      case (Raised e)
      then show ?thesis by (simp add: invoke_result)
    qed
  qed
  have bound: "length (snd (invoke ag N ?input)) \<le> N"
    unfolding invoke_trace loop [OF assms(1)] by (rule run_graph_length)
  have exact: "\<And>M. 1 \<le> M \<Longrightarrow> fst (pregel_loop ag M ?input) = OutOfSteps
      \<Longrightarrow> fst (invoke ag M ?input) = Inl (PyErr GraphRecursionError (error_text ag GraphRecursionError M))
        \<and> length (snd (invoke ag M ?input)) = M
        \<and> reasoner_invocations (snd (invoke ag M ?input)) = (M + 1) div 2
        \<and> dispatch_cycles (snd (invoke ag M ?input)) = M div 2"
  proof -
    fix M :: nat assume M: "1 \<le> M" and o: "fst (pregel_loop ag M ?input) = OutOfSteps"
    from o have o': "fst (run_graph ag M Reasoner ?state) = OutOfSteps"
      by (simp add: loop [OF M])
    from out_of_steps_counts [OF o'] o
    show "fst (invoke ag M ?input) = Inl (PyErr GraphRecursionError (error_text ag GraphRecursionError M))
        \<and> length (snd (invoke ag M ?input)) = M
        \<and> reasoner_invocations (snd (invoke ag M ?input)) = (M + 1) div 2
        \<and> dispatch_cycles (snd (invoke ag M ?input)) = M div 2"
      by (simp add: invoke_result invoke_trace loop [OF M])
  qed
  have sufficient: "(\<forall>tc. \<exists>out. invoke_tool ag tc = Inr out)
            \<and> (\<forall>msgs c tcs x. llm ag msgs = Inr (c, tcs, Some x)
                  \<longrightarrow> Some x \<notin> set (map message_id msgs))
          \<longrightarrow> fst (pregel_loop ag N ?input) = OutOfSteps"
  proof
    assume h: "(\<forall>tc. \<exists>out. invoke_tool ag tc = Inr out)
            \<and> (\<forall>msgs c tcs x. llm ag msgs = Inr (c, tcs, Some x)
                  \<longrightarrow> Some x \<notin> set (map message_id msgs))"
    from new_replies_run_out_of_steps [OF assms(2) h [THEN conjunct1] h [THEN conjunct2], THEN conjunct1]
    show "fst (pregel_loop ag N ?input) = OutOfSteps"
      by (simp add: loop [OF assms(1)])
  qed
  have fifty: "(1::nat) \<le> recursion_limit" "recursion_limit = 50"
    by (simp_all add: recursion_limit_def)
  have query_aborted: "\<exists>e. fst (answer_query ag q (Some history)) = Inl e"
    using aborted [OF fifty(1)] answer_query_aborted by blast
  have query_exact: "fst (pregel_loop ag recursion_limit ?input) = OutOfSteps
          \<longrightarrow> length (snd (answer_query ag q (Some history))) = 50
            \<and> reasoner_invocations (snd (answer_query ag q (Some history))) = 25
            \<and> dispatch_cycles (snd (answer_query ag q (Some history))) = 25"
  proof
    assume o: "fst (pregel_loop ag recursion_limit ?input) = OutOfSteps"
    from exact [OF fifty(1) o]
    show "length (snd (answer_query ag q (Some history))) = 50
            \<and> reasoner_invocations (snd (answer_query ag q (Some history))) = 25
            \<and> dispatch_cycles (snd (answer_query ag q (Some history))) = 25"
      by (simp add: answer_query_trace invoke_trace fifty(2))
  qed
  show ?thesis
    using aborted [OF assms(1)] bound exact [OF assms(1)] sufficient query_aborted query_exact
    by blast
qed

theorem recursion_limit_ends_tool_loop_witness:
  "(1::nat) \<le> 4
   \<and> (\<forall>msgs. \<exists>c tcs i. llm looping_agent msgs = Inr (c, tcs, i) \<and> tcs \<noteq> [])
   \<and> (\<forall>tc. \<exists>out. invoke_tool looping_agent tc = Inr out)
   \<and> fst (pregel_loop looping_agent 4 [HumanMessage (Text ''Weather?'') None]) = OutOfSteps
   \<and> fst (invoke looping_agent 4 [HumanMessage (Text ''Weather?'') None])
       = Inl (PyErr GraphRecursionError ''Recursion limit reached without hitting a stop condition'')
   \<and> length (snd (invoke looping_agent 4 [HumanMessage (Text ''Weather?'') None])) = 4
   \<and> reasoner_invocations (snd (invoke looping_agent 4 [HumanMessage (Text ''Weather?'') None])) = 2
   \<and> dispatch_cycles (snd (invoke looping_agent 4 [HumanMessage (Text ''Weather?'') None])) = 2
   \<and> fst (pregel_loop looping_agent recursion_limit [HumanMessage (Text ''Weather?'') None]) = OutOfSteps
   \<and> length (snd (answer_query looping_agent ''Weather?'' (Some []))) = 50"
proof -
  have h0: "(1::nat) \<le> 4" by simp
  have h1: "\<forall>msgs. \<exists>c tcs i. llm looping_agent msgs = Inr (c, tcs, i) \<and> tcs \<noteq> []"
    by (simp add: looping_agent_def example_agent_def)
  have h2: "\<forall>tc. \<exists>out. invoke_tool looping_agent tc = Inr out"
    by (simp add: looping_agent_def example_agent_def)
  have h3: "\<forall>msgs c tcs x. llm looping_agent msgs = Inr (c, tcs, Some x)
      \<longrightarrow> Some x \<notin> set (map message_id msgs)"
    by (simp add: looping_agent_def example_agent_def)
  have e: "error_text looping_agent GraphRecursionError 4
      = ''Recursion limit reached without hitting a stop condition''"
    by (simp add: looping_agent_def example_agent_def example_error_text_def)
  have o: "fst (pregel_loop looping_agent recursion_limit [HumanMessage (Text ''Weather?'') None])
      = OutOfSteps"
    by (simp add: pregel_loop_def entry_point_def recursion_limit_def looping_agent_out_of_steps)
  show ?thesis
    using h1 h2 h3 e o
      recursion_limit_ends_tool_loop [OF h0 h1, where history = "[]" and q = "''Weather?''"]
    by simp
qed

text \<open>
  With the limit of 50 the tool node runs 25 times, not 50 times, before the run is
  aborted: a dispatch cycle costs two steps of the limit, one for the reasoner and one
  for the tool node. And the limit is not always what aborts the run: with a model
  whose replies all carry the same id, the second reply takes the place of the first,
  the last message of the state is then the tool message, and the routing function
  raises an AttributeError after one run of the tool node.
\<close>

theorem recursion_limit_dispatch_cycles_counterexample:
  "fst (invoke looping_agent 50 [HumanMessage (Text ''Weather?'') None])
     = Inl (PyErr GraphRecursionError ''Recursion limit reached without hitting a stop condition'')
   \<and> dispatch_cycles (snd (invoke looping_agent 50 [HumanMessage (Text ''Weather?'') None])) = 25
   \<and> dispatch_cycles (snd (invoke looping_agent 50 [HumanMessage (Text ''Weather?'') None])) \<noteq> 50
   \<and> fst (invoke same_id_agent 50 [HumanMessage (Text ''Weather?'') None])
     = Inl (PyErr AttributeError (no_attribute ''ToolMessage'' ''tool_calls''))
   \<and> dispatch_cycles (snd (invoke same_id_agent 50 [HumanMessage (Text ''Weather?'') None])) = 1"
proof -
  let ?input = "[HumanMessage (Text ''Weather?'') None] :: int message list"
  have s: "add_messages [] ?input = ?input"
    by (simp add: add_messages_def add_message_def)
  have o: "fst (run_graph looping_agent 50 Reasoner ?input) = OutOfSteps"
    by (rule looping_agent_out_of_steps)
  have l: "pregel_loop looping_agent 50 ?input = run_graph looping_agent 50 Reasoner ?input"
    by (simp add: pregel_loop_def entry_point_def s)
  have e: "error_text looping_agent GraphRecursionError 50
      = ''Recursion limit reached without hitting a stop condition''"
    by (simp add: looping_agent_def example_agent_def example_error_text_def)
  have a: "fst (invoke looping_agent 50 ?input)
     = Inl (PyErr GraphRecursionError ''Recursion limit reached without hitting a stop condition'')"
    by (simp add: invoke_result l o e)
  have b: "dispatch_cycles (snd (invoke looping_agent 50 ?input)) = 25"
    using out_of_steps_counts [OF o] by (simp add: invoke_trace l)
  have c: "dispatch_cycles (snd (invoke looping_agent 50 ?input)) \<noteq> 50"
    using b by simp
  have fifty: "(50::nat) = Suc (Suc (Suc 47))" by simp
  have r: "pregel_loop same_id_agent 50 ?input
      = run_graph same_id_agent (Suc (Suc (Suc 47))) Reasoner ?input"
    unfolding pregel_loop_def entry_point_def s fifty [symmetric] by simp
  have d: "fst (invoke same_id_agent 50 ?input)
     = Inl (PyErr AttributeError (no_attribute ''ToolMessage'' ''tool_calls''))"
    unfolding invoke_result r same_id_agent_run by simp
  have f: "dispatch_cycles (snd (invoke same_id_agent 50 ?input)) = 1"
    unfolding invoke_trace r same_id_agent_run by (simp add: dispatch_cycles_def)
  show ?thesis
    by (intro conjI) (rule a b c d f)+
qed

subsection \<open>The chat endpoint\<close>

text \<open>
  C7. \<^verbatim>\<open>chat\<close> always returns a body with a string under \<open>response\<close> and raises
  nothing: when \<^verbatim>\<open>answer_query\<close> raises, the response is the text
  \<open>A error occurred: \<close> followed by the text of the exception; when the answer is the
  empty string, the response is an apology; otherwise the response is the answer.
\<close>

theorem chat_always_responds:
  "(\<exists>s. chat ag request = Inr \<lparr> response = s \<rparr>)
   \<and> (fst (answer_query ag (message request) (Some (convert_history (chat_history request))))
        = Inl (PyErr k msg)
      \<longrightarrow> chat ag request = Inr \<lparr> response = ''A error occurred: '' @ msg \<rparr>)
   \<and> (fst (answer_query ag (message request) (Some (convert_history (chat_history request))))
        = Inr []
      \<longrightarrow> chat ag request = Inr \<lparr> response = ''Sorry, I was not able to generate an answer.'' \<rparr>)
   \<and> (fst (answer_query ag (message request) (Some (convert_history (chat_history request))))
        = Inr answer \<and> answer \<noteq> []
      \<longrightarrow> chat ag request = Inr \<lparr> response = answer \<rparr>)"
  by (auto simp add: chat_def Let_def split: sum.splits py_error.splits)

theorem chat_always_responds_witness:
  "fst (answer_query (example_agent (Inl (PyErr OtherException ''model unavailable'')))
          (message example_chat_request) (Some (convert_history (chat_history example_chat_request))))
     = Inl (PyErr OtherException ''model unavailable'')
   \<and> chat (example_agent (Inl (PyErr OtherException ''model unavailable''))) example_chat_request
     = Inr \<lparr> response = ''A error occurred: model unavailable'' \<rparr>
   \<and> fst (answer_query (example_agent (Inr (Text [], [], None)))
          (message example_chat_request) (Some (convert_history (chat_history example_chat_request))))
     = Inr []
   \<and> chat (example_agent (Inr (Text [], [], None))) example_chat_request
     = Inr \<lparr> response = ''Sorry, I was not able to generate an answer.'' \<rparr>
   \<and> fst (answer_query (example_agent (Inr (Text ''It is sunny.'', [], None)))
          (message example_chat_request) (Some (convert_history (chat_history example_chat_request))))
     = Inr ''It is sunny.''
   \<and> chat (example_agent (Inr (Text ''It is sunny.'', [], None))) example_chat_request
     = Inr \<lparr> response = ''It is sunny.'' \<rparr>
   \<and> convert_history (chat_history example_chat_request)
     = [HumanMessage (Text ''Hi'') None, AIMessage (Text ''Hello!'') [] None :: int message]"
proof -
  let ?h = "convert_history (chat_history example_chat_request) :: int message list"
  let ?m = "message example_chat_request"
  have conv: "?h = [HumanMessage (Text ''Hi'') None, AIMessage (Text ''Hello!'') [] None]"
    by (simp add: example_chat_request_def)
  have e1: "fst (answer_query (example_agent (Inl (PyErr OtherException ''model unavailable''))) ?m (Some ?h))
     = Inl (PyErr OtherException ''model unavailable'')"
    by (simp add: answer_query_def invoke_def pregel_loop_def entry_point_def recursion_limit_def
        Let_def run_graph_Suc [of Reasoner _ 49, simplified] reasoner_node_def example_agent_def
        ebind_def del: run_graph.simps)
  have e2: "fst (answer_query (example_agent (Inr (Text [], [], None))) ?m (Some ?h)) = Inr []"
    using answer_query_single_cycle [of "example_agent (Inr (Text [], [], None))" ?h ?m "Text []" None]
    by (simp add: example_agent_def)
  have e3: "fst (answer_query (example_agent (Inr (Text ''It is sunny.'', [], None))) ?m (Some ?h))
     = Inr ''It is sunny.''"
    using answer_query_single_cycle [of "example_agent (Inr (Text ''It is sunny.'', [], None))" ?h ?m
        "Text ''It is sunny.''" None]
    by (simp add: example_agent_def)
  have c1: "chat (example_agent (Inl (PyErr OtherException ''model unavailable''))) example_chat_request
     = Inr \<lparr> response = ''A error occurred: model unavailable'' \<rparr>"
    using chat_always_responds [where ag = "example_agent (Inl (PyErr OtherException ''model unavailable''))"
        and request = example_chat_request and k = OtherException and msg = "''model unavailable''",
        THEN conjunct2, THEN conjunct1] e1
    by simp
  have c2: "chat (example_agent (Inr (Text [], [], None))) example_chat_request
     = Inr \<lparr> response = ''Sorry, I was not able to generate an answer.'' \<rparr>"
    using chat_always_responds [where ag = "example_agent (Inr (Text [], [], None))"
        and request = example_chat_request, THEN conjunct2, THEN conjunct2, THEN conjunct1] e2
    by simp
  have c3: "chat (example_agent (Inr (Text ''It is sunny.'', [], None))) example_chat_request
     = Inr \<lparr> response = ''It is sunny.'' \<rparr>"
    using chat_always_responds [where ag = "example_agent (Inr (Text ''It is sunny.'', [], None))"
        and request = example_chat_request and answer = "''It is sunny.''",
        THEN conjunct2, THEN conjunct2, THEN conjunct2] e3
    by simp
  show ?thesis
    by (intro conjI) (rule e1 c1 e2 c2 e3 c3 conv)+
qed

end
